theory Spec2Isabelle
  imports Complex_Main "HOL-Library.Sublist"
begin

section \<open>Python values\<close>

text \<open>
  The research pipeline of \<^verbatim>\<open>Gaurav_Kumar/Group_2_project\<close> threads one dictionary
  (\<^verbatim>\<open>ResearchState\<close>) through six agents. Whatever a language model answers is decoded
  by \<^verbatim>\<open>json.loads\<close> and flows on unvalidated, so model answers are values of the type
  \<open>json\<close> below and every Python operation on them is written with the failure it
  has on a value of the wrong shape.

  A Python float is idealised as a real number or one of the three special values; the
  rounding and the overflow of the conversion from int are not modelled.
\<close>

datatype pyfloat = Finite real | PosInf | NegInf | NaN

text \<open>\<^verbatim>\<open>a >= b\<close> on floats: every comparison with NaN is false.\<close>

fun py_ge :: "pyfloat \<Rightarrow> pyfloat \<Rightarrow> bool" where
  "py_ge NaN _ = False"
| "py_ge _ NaN = False"
| "py_ge PosInf _ = True"
| "py_ge _ NegInf = True"
| "py_ge NegInf _ = False"
| "py_ge (Finite a) PosInf = False"
| "py_ge (Finite a) (Finite b) = (b \<le> a)"

datatype json =
    JNull
  | JBool bool
  | JInt int
  | JFloat pyfloat
  | JStr string
  | JArr "json list"
  | JObj "(string \<times> json) list"

type_synonym dict = "(string \<times> json) list"

text \<open>\<^verbatim>\<open>d.get(key, default)\<close> on a dictionary.\<close>

definition dget :: "dict \<Rightarrow> string \<Rightarrow> json \<Rightarrow> json" where
  "dget d k dflt = (case map_of d k of None \<Rightarrow> dflt | Some v \<Rightarrow> v)"

text \<open>
  The exceptions the pipeline meets. \<open>CapabilityError\<close> is whatever a hosted service
  raises, with its message; the interpreter's own errors carry the class name only
  (the message text of the interpreter differs between versions).
\<close>

datatype exn = CapabilityError string | ValueError string | TypeError | AttributeError | KeyError

fun str_exn :: "exn \<Rightarrow> string" where
  "str_exn (CapabilityError m) = m"
| "str_exn (ValueError m) = m"
| "str_exn TypeError = ''TypeError''"
| "str_exn AttributeError = ''AttributeError''"
| "str_exn KeyError = ''KeyError''"

text \<open>Truth value of a decoded value (\<^verbatim>\<open>if x:\<close>).\<close>

fun truthy :: "json \<Rightarrow> bool" where
  "truthy JNull = False"
| "truthy (JBool b) = b"
| "truthy (JInt i) = (i \<noteq> 0)"
| "truthy (JFloat (Finite r)) = (r \<noteq> 0)"
| "truthy (JFloat _) = True"
| "truthy (JStr s) = (s \<noteq> [])"
| "truthy (JArr xs) = (xs \<noteq> [])"
| "truthy (JObj kvs) = (kvs \<noteq> [])"

text \<open>\<^verbatim>\<open>len(x)\<close>: defined on strings, lists and dictionaries, a TypeError otherwise.\<close>

fun py_len :: "json \<Rightarrow> exn + nat" where
  "py_len (JStr s) = Inr (length s)"
| "py_len (JArr xs) = Inr (length xs)"
| "py_len (JObj kvs) = Inr (length kvs)"
| "py_len _ = Inl TypeError"

text \<open>
  Iteration (\<^verbatim>\<open>for x in v\<close>): the elements of a list, the characters of a string, the
  keys of a dictionary; a TypeError otherwise.
\<close>

fun py_iter :: "json \<Rightarrow> exn + json list" where
  "py_iter (JArr xs) = Inr xs"
| "py_iter (JStr s) = Inr (map (\<lambda>c. JStr [c]) s)"
| "py_iter (JObj kvs) = Inr (map (\<lambda>kv. JStr (fst kv)) kvs)"
| "py_iter _ = Inl TypeError"

text \<open>
  \<^verbatim>\<open>x[:n]\<close>: a prefix of a string or list (a negative \<open>n\<close> counts from the end); a
  dictionary and a scalar raise (for a dictionary the interpreter's exception class
  depends on its version; an \<^verbatim>\<open>except Exception\<close> catches either).
\<close>

definition slice_to :: "int \<Rightarrow> 'a list \<Rightarrow> 'a list" where
  "slice_to n xs = (if n < 0 then take (nat (int (length xs) + n)) xs else take (nat n) xs)"

fun py_slice_to :: "json \<Rightarrow> int \<Rightarrow> exn + json" where
  "py_slice_to (JStr s) n = Inr (JStr (slice_to n s))"
| "py_slice_to (JArr xs) n = Inr (JArr (slice_to n xs))"
| "py_slice_to (JObj kvs) n = Inl TypeError"
| "py_slice_to _ n = Inl TypeError"

section \<open>The shared state\<close>

text \<open>
  \<^verbatim>\<open>orchestrator/state.py\<close>: \<^verbatim>\<open>ResearchState\<close> is a \<^verbatim>\<open>TypedDict\<close> with
  \<^verbatim>\<open>total=False\<close>, so every key may be absent: each field is an option, and the
  dictionary an agent returns (its update) has the same type, with \<open>None\<close> for the keys
  it leaves out. The keys \<^verbatim>\<open>status\<close>, \<^verbatim>\<open>agent_outputs\<close> and \<^verbatim>\<open>usage_stats\<close> hold
  progress text and token counts that no agent and no edge reads; they are left out.
\<close>

record source_document =
  title :: string
  url :: string
  content :: string
  source_type :: json
  relevance_score :: pyfloat
  domain :: string
  sub_query :: json

record research_state =
  original_query :: "string option"
  sub_queries :: "json option"
  sources :: "source_document list option"
  analysis :: "dict option"
  fact_check :: "dict option"
  insights :: "dict option"
  report :: "dict option"
  iteration :: "int option"
  max_iterations :: "int option"
  quality_score :: "pyfloat option"
  errors :: "string list option"

text \<open>\<^verbatim>\<open>state.get(key, default)\<close>.\<close>

definition sget :: "'a option \<Rightarrow> 'a \<Rightarrow> 'a" where
  "sget field dflt = (case field of None \<Rightarrow> dflt | Some v \<Rightarrow> v)"

text \<open>\<^verbatim>\<open>state.get("sources", [])\<close>: the sources collected so far.\<close>

definition collected :: "research_state \<Rightarrow> source_document list" where
  "collected s = sget (sources s) []"

definition no_update :: research_state where
  "no_update = \<lparr>original_query = None, sub_queries = None, sources = None, analysis = None,
     fact_check = None, insights = None, report = None, iteration = None,
     max_iterations = None, quality_score = None, errors = None\<rparr>"

text \<open>
  The graph library writes each key of a node's returned dictionary over the state's
  value for that key and keeps the other keys.
\<close>

definition override :: "'a option \<Rightarrow> 'a option \<Rightarrow> 'a option" where
  "override old new = (case new of None \<Rightarrow> old | Some v \<Rightarrow> Some v)"

definition apply_update :: "research_state \<Rightarrow> research_state \<Rightarrow> research_state" where
  "apply_update s u =
     \<lparr>original_query = override (original_query s) (original_query u),
      sub_queries = override (sub_queries s) (sub_queries u),
      sources = override (sources s) (sources u),
      analysis = override (analysis s) (analysis u),
      fact_check = override (fact_check s) (fact_check u),
      insights = override (insights s) (insights u),
      report = override (report s) (report u),
      iteration = override (iteration s) (iteration u),
      max_iterations = override (max_iterations s) (max_iterations u),
      quality_score = override (quality_score s) (quality_score u),
      errors = override (errors s) (errors u)\<rparr>"

text \<open>\<^verbatim>\<open>config.py\<close>: the orchestration settings.\<close>

record settings =
  MAX_ITERATIONS :: int
  QUALITY_THRESHOLD :: pyfloat
  MAX_SUB_QUERIES :: int

definition default_settings :: settings where
  "default_settings = \<lparr>MAX_ITERATIONS = 2, QUALITY_THRESHOLD = Finite 65, MAX_SUB_QUERIES = 5\<rparr>"

section \<open>Extracting JSON from a model's answer\<close>

text \<open>
  \<^verbatim>\<open>utils/llm_client.py\<close>, \<^verbatim>\<open>LLMClient._parse_json\<close>. The standard library's
  \<^verbatim>\<open>json.loads\<close> is a parameter \<open>loads\<close>: \<open>None\<close> stands for \<^verbatim>\<open>JSONDecodeError\<close>.
  Text is ASCII; \<open>is_space\<close> is the whitespace of \<^verbatim>\<open>str.strip()\<close> and of the regular
  expression class \<^verbatim>\<open>\s\<close>.
\<close>

definition is_space :: "char \<Rightarrow> bool" where
  "is_space c = (of_char c \<in> {9, 10, 11, 12, 13, 28, 29, 30, 31, 32 :: nat})"

definition py_strip :: "string \<Rightarrow> string" where
  "py_strip s = rev (dropWhile is_space (rev (dropWhile is_space s)))"

definition fence :: string where
  "fence = [CHR 0x60, CHR 0x60, CHR 0x60]"

definition skip_json :: "string \<Rightarrow> string" where
  "skip_json r = (if prefix ''json'' r then drop 4 r else r)"

text \<open>
  \<^verbatim>\<open>re.sub(r"```(?:json)?\s*\n?", "", text)\<close>: every three backquotes are removed together
  with a following \<^verbatim>\<open>json\<close> and the whitespace after it.
\<close>

function strip_fences :: "string \<Rightarrow> string" where
  "strip_fences [] = []"
| "strip_fences (c # cs) =
     (if prefix fence (c # cs) then strip_fences (dropWhile is_space (skip_json (drop 2 cs)))
      else c # strip_fences cs)"
  by pat_completeness auto
termination
proof (relation "measure length")
  show "wf (measure length)" by simp
next
  fix c :: char and cs :: string
  have "length (dropWhile is_space (skip_json (drop 2 cs))) \<le> length (skip_json (drop 2 cs))"
    by (rule length_dropWhile_le)
  also have "\<dots> \<le> length (drop 2 cs)" by (auto simp add: skip_json_def)
  also have "\<dots> < length (c # cs)" by simp
  finally show "(dropWhile is_space (skip_json (drop 2 cs)), c # cs) \<in> measure length" by simp
next
  fix c :: char and cs :: string
  show "(cs, c # cs) \<in> measure length" by simp
qed

text \<open>
  \<^verbatim>\<open>re.search(open + ".*" + close, text, re.DOTALL)\<close> for a one-character \<open>open\<close> and
  \<open>close\<close>: the match, if any, runs from the first \<open>open\<close> to the last \<open>close\<close> after it.
\<close>

definition greedy_match :: "char \<Rightarrow> char \<Rightarrow> string \<Rightarrow> string option" where
  "greedy_match opn cls s =
     (let t = dropWhile (\<lambda>c. c \<noteq> opn) s;
          m = rev (dropWhile (\<lambda>c. c \<noteq> cls) (rev (drop 1 t)))
      in if t = [] \<or> m = [] then None else Some (opn # m))"

definition wrap_items :: "json \<Rightarrow> json" where
  "wrap_items r = (case r of JObj d \<Rightarrow> JObj d | _ \<Rightarrow> JObj [(''items'', r)])"

definition loads_match :: "(string \<Rightarrow> json option) \<Rightarrow> string option \<Rightarrow> json option" where
  "loads_match loads m = (case m of None \<Rightarrow> None | Some g \<Rightarrow> loads g)"

definition parse_json :: "(string \<Rightarrow> json option) \<Rightarrow> string \<Rightarrow> exn + json" where
  "parse_json loads raw =
     (let text = py_strip raw in
      case loads text of
        Some r \<Rightarrow> Inr (wrap_items r)
      | None \<Rightarrow>
          (let cleaned = py_strip (strip_fences text) in
           case loads cleaned of
             Some r \<Rightarrow> Inr (wrap_items r)
           | None \<Rightarrow>
               (case loads_match loads (greedy_match CHR ''{'' CHR ''}'' cleaned) of
                  Some r \<Rightarrow> Inr r
                | None \<Rightarrow>
                    (case loads_match loads (greedy_match CHR ''['' CHR '']'' cleaned) of
                       Some items \<Rightarrow> Inr (JObj [(''items'', items)])
                     | None \<Rightarrow>
                         Inl (ValueError
                           (''Could not parse JSON from LLM response. First 500 chars: ''
                              @ take 500 text))))))"

text \<open>
  \<^verbatim>\<open>LLMClient.chat_json\<close>: the chat call (after its retries) either raises or returns
  the answer's text, which is then parsed.
\<close>

definition chat_json :: "(string \<Rightarrow> json option) \<Rightarrow> exn + string \<Rightarrow> exn + json" where
  "chat_json loads answer = (case answer of Inl e \<Rightarrow> Inl e | Inr raw \<Rightarrow> parse_json loads raw)"





text \<open>
  The decoder's results on the texts of the examples below; each entry is what
  \<^verbatim>\<open>json.loads\<close> returns for that text, and the examples hand it no other text that
  \<^verbatim>\<open>json.loads\<close> accepts.
\<close>

definition sample_loads :: "string \<Rightarrow> json option" where
  "sample_loads = map_of
     [(''42'', JInt 42),
      (''{}'', JObj []),
      (''[1]'', JArr [JInt 1]),
      (''{\"sub_queries\": \"AI in healthcare\"}'', JObj [(''sub_queries'', JStr ''AI in healthcare'')])]"

section \<open>The agents\<close>

text \<open>
  Each agent's \<^verbatim>\<open>run\<close> reads the state and returns an update. The text of a prompt is
  not modelled (the model's answer is an input of its own); what is kept of the code that
  builds a prompt is every operation that can raise. An agent takes the outcome of its
  \<^verbatim>\<open>chat_json\<close> call: the exception raised, or the decoded answer.
\<close>

definition andthen :: "exn + 'a \<Rightarrow> ('a \<Rightarrow> exn + 'b) \<Rightarrow> exn + 'b" where
  "andthen r f = (case r of Inl e \<Rightarrow> Inl e | Inr v \<Rightarrow> f v)"

text \<open>\<^verbatim>\<open>x.get(key, default)\<close> on a decoded value: only a dictionary has \<^verbatim>\<open>get\<close>.\<close>

fun as_dict :: "json \<Rightarrow> exn + dict" where
  "as_dict (JObj d) = Inr d"
| "as_dict _ = Inl AttributeError"

definition py_get :: "json \<Rightarrow> string \<Rightarrow> json \<Rightarrow> exn + json" where
  "py_get x k dflt = andthen (as_dict x) (\<lambda>d. Inr (dget d k dflt))"

text \<open>\<^verbatim>\<open>for f in xs: f.get(...)\<close>: the elements in order, each of which must be a dictionary.\<close>

fun map_exn :: "('a \<Rightarrow> exn + 'b) \<Rightarrow> 'a list \<Rightarrow> exn + 'b list" where
  "map_exn f [] = Inr []"
| "map_exn f (x # xs) = andthen (f x) (\<lambda>y. andthen (map_exn f xs) (\<lambda>ys. Inr (y # ys)))"

definition iter_dicts :: "json \<Rightarrow> exn + dict list" where
  "iter_dicts v = andthen (py_iter v) (map_exn as_dict)"

text \<open>\<^verbatim>\<open>"\n".join(f"- {x}" for x in v) if v else ...\<close>: a true value must be iterable.\<close>

definition iter_if_true :: "json \<Rightarrow> exn + json list" where
  "iter_if_true v = (if truthy v then py_iter v else Inr [])"

subsection \<open>Decomposer\<close>

text \<open>
  \<^verbatim>\<open>agents/decomposer_agent.py\<close>. Before the \<^verbatim>\<open>try\<close>, on a reflection pass, the
  follow-up queries of the previous report are joined into the prompt.
\<close>

definition previous_gaps :: "research_state \<Rightarrow> exn + json list" where
  "previous_gaps state =
     (let iteration = sget (iteration state) 0 in
      if iteration > 0 \<and> sget (report state) [] \<noteq> []
      then iter_if_true (dget (sget (report state) []) ''follow_up_queries'' (JArr []))
      else Inr [])"

text \<open>The body of the \<^verbatim>\<open>try\<close>: the sub-queries to return, or the exception raised.\<close>

definition decomposer_try :: "settings \<Rightarrow> string \<Rightarrow> exn + json \<Rightarrow> exn + json" where
  "decomposer_try cfg query answer =
     andthen answer (\<lambda>result.
     andthen (py_get result ''sub_queries'' (JArr [JStr query])) (\<lambda>sub_queries.
     andthen (py_len sub_queries) (\<lambda>n.
     andthen (if int n > MAX_SUB_QUERIES cfg
              then py_slice_to sub_queries (MAX_SUB_QUERIES cfg) else Inr sub_queries)
       (\<lambda>sub_queries.
          Inr (if \<not> truthy sub_queries then JArr [JStr query] else sub_queries)))))"

definition decomposer_run :: "settings \<Rightarrow> research_state \<Rightarrow> exn + json \<Rightarrow> exn + research_state" where
  "decomposer_run cfg state answer =
     (let query = sget (original_query state) [] in
      andthen (previous_gaps state) (\<lambda>_.
        case decomposer_try cfg query answer of
          Inr subs \<Rightarrow> Inr (no_update\<lparr>sub_queries := Some subs\<rparr>)
        | Inl e \<Rightarrow>
            Inr (no_update\<lparr>sub_queries := Some (JArr [JStr query]),
                   errors := Some (sget (errors state) [] @ [''Decomposer: '' @ str_exn e])\<rparr>)))"

subsection \<open>Retriever\<close>

text \<open>
  \<^verbatim>\<open>agents/retriever_agent.py\<close>. One entry of the search service's result list is a
  \<open>search_hit\<close>; the service is called once per sub-query and either raises or returns
  its hits. \<^verbatim>\<open>urlparse(url).netloc\<close> is a parameter.
\<close>

record search_hit =
  hit_title :: "string option"
  hit_url :: "string option"
  hit_content :: "string option"
  hit_score :: "pyfloat option"

text \<open>\<^verbatim>\<open>content.split()\<close> and \<^verbatim>\<open>" ".join(words)\<close>.\<close>

fun split_acc :: "string \<Rightarrow> string \<Rightarrow> string list" where
  "split_acc w [] = (if w = [] then [] else [rev w])"
| "split_acc w (c # cs) =
     (if is_space c then (if w = [] then split_acc [] cs else rev w # split_acc [] cs)
      else split_acc (c # w) cs)"

definition py_split :: "string \<Rightarrow> string list" where
  "py_split s = split_acc [] s"

fun join :: "string \<Rightarrow> string list \<Rightarrow> string" where
  "join sep [] = []"
| "join sep [w] = w"
| "join sep (w # ws) = w @ sep @ join sep ws"

definition truncate_content :: "string \<Rightarrow> string" where
  "truncate_content c =
     (let words = py_split c in
      if length words > 800 then join '' '' (take 800 words) @ ''...'' else c)"

text \<open>\<^verbatim>\<open>s.replace("www.", "")\<close>.\<close>

fun remove_www :: "string \<Rightarrow> string" where
  "remove_www [] = []"
| "remove_www (c # cs) =
     (if prefix ''www.'' (c # cs) then remove_www (drop 3 cs) else c # remove_www cs)"

definition to_source :: "(string \<Rightarrow> string) \<Rightarrow> json \<Rightarrow> search_hit \<Rightarrow> source_document" where
  "to_source netloc query hit =
     \<lparr>title = sget (hit_title hit) ''Untitled'',
      url = sget (hit_url hit) [],
      content = truncate_content (sget (hit_content hit) []),
      source_type = JStr ''other'',
      relevance_score = sget (hit_score hit) (Finite 0),
      domain = remove_www (netloc (sget (hit_url hit) [])),
      sub_query = query\<rparr>"

definition search :: "(string \<Rightarrow> string) \<Rightarrow> exn + search_hit list \<Rightarrow> json \<Rightarrow> exn + source_document list" where
  "search netloc response query =
     (case response of Inl e \<Rightarrow> Inl e | Inr hits \<Rightarrow> Inr (map (to_source netloc query) hits))"

text \<open>
  The inner loop: a result whose url has not been seen is recorded and appended. The pair
  is \<^verbatim>\<open>(existing_urls, all_sources)\<close>.
\<close>

fun add_unseen :: "string set \<times> source_document list \<Rightarrow> source_document list
    \<Rightarrow> string set \<times> source_document list" where
  "add_unseen (seen, acc) [] = (seen, acc)"
| "add_unseen (seen, acc) (src # rest) =
     (if url src \<notin> seen then add_unseen (insert (url src) seen, acc @ [src]) rest
      else add_unseen (seen, acc) rest)"

text \<open>
  The outer loop over \<^verbatim>\<open>enumerate(sub_queries)\<close>: a search that raises is logged and
  skipped. \<open>tavily i q\<close> is what the service does on call number \<open>i\<close> for the query \<open>q\<close>.
\<close>

fun search_all :: "(string \<Rightarrow> string) \<Rightarrow> (nat \<Rightarrow> json \<Rightarrow> exn + search_hit list) \<Rightarrow> nat \<Rightarrow> json list
    \<Rightarrow> string set \<times> source_document list \<Rightarrow> string set \<times> source_document list" where
  "search_all netloc tavily i [] st = st"
| "search_all netloc tavily i (query # rest) st =
     (case search netloc (tavily i query) query of
        Inl e \<Rightarrow> search_all netloc tavily (Suc i) rest st
      | Inr results \<Rightarrow> search_all netloc tavily (Suc i) rest (add_unseen st results))"

text \<open>\<^verbatim>\<open>_fallback_categorize\<close>: rules on the lower-cased domain.\<close>

definition lower_char :: "char \<Rightarrow> char" where
  "lower_char c = (let n = (of_char c :: nat) in if 65 \<le> n \<and> n \<le> 90 then char_of (n + 32) else c)"

definition contains :: "string \<Rightarrow> string \<Rightarrow> bool" where
  "contains s x = list_ex (prefix x) (suffixes s)"

definition fallback_categorize :: "string \<Rightarrow> string" where
  "fallback_categorize name =
     (let d = map lower_char name in
      if list_ex (contains d) [''.edu'', ''arxiv'', ''scholar'', ''pubmed'', ''ncbi''] then ''academic''
      else if list_ex (contains d) [''.gov'', ''government''] then ''government''
      else if list_ex (contains d) [''reuters'', ''bbc'', ''nytimes'', ''cnn'', ''guardian'', ''apnews'']
        then ''news''
      else if list_ex (contains d) [''wikipedia'', ''britannica''] then ''encyclopedia''
      else if list_ex (contains d) [''medium.com'', ''substack'', ''wordpress'', ''blogspot'']
        then ''blog''
      else ''other'')"

text \<open>
  \<^verbatim>\<open>0 <= idx < len(sources)\<close> followed by \<^verbatim>\<open>sources[idx]\<close>, for a decoded \<open>idx\<close>: the
  position to write, nothing when the test fails, or the TypeError of comparing or
  indexing with a value that is no integer.
\<close>

fun index_in :: "json \<Rightarrow> nat \<Rightarrow> exn + nat option" where
  "index_in (JInt i) n = Inr (if 0 \<le> i \<and> i < int n then Some (nat i) else None)"
| "index_in (JBool b) n = Inr (if (if b then 1 else 0) < n then Some (if b then 1 else 0) else None)"
| "index_in (JFloat (Finite r)) n = (if 0 \<le> r \<and> r < real n then Inl TypeError else Inr None)"
| "index_in (JFloat PosInf) n = Inr None"
| "index_in (JFloat NegInf) n = Inr None"
| "index_in (JFloat NaN) n = Inr None"
| "index_in _ n = Inl TypeError"

fun categorize_items :: "json list \<Rightarrow> source_document list \<Rightarrow> exn + source_document list" where
  "categorize_items [] srcs = Inr srcs"
| "categorize_items (item # items) srcs =
     andthen (py_get item ''index'' (JInt (- 1))) (\<lambda>idx.
     andthen (index_in idx (length srcs)) (\<lambda>pos.
       case pos of
         None \<Rightarrow> categorize_items items srcs
       | Some i \<Rightarrow>
           andthen (py_get item ''source_type'' (JStr ''other'')) (\<lambda>t.
             categorize_items items (srcs[i := (srcs ! i)\<lparr>source_type := t\<rparr>]))))"

definition categorize_sources :: "exn + json \<Rightarrow> source_document list \<Rightarrow> source_document list" where
  "categorize_sources answer srcs =
     (case andthen answer (\<lambda>result.
             andthen (py_get result ''sources'' (JArr [])) (\<lambda>listed.
             andthen (py_iter listed) (\<lambda>items. categorize_items items srcs))) of
        Inr categorized \<Rightarrow> categorized
      | Inl e \<Rightarrow> map (\<lambda>s. s\<lparr>source_type := JStr (fallback_categorize (domain s))\<rparr>) srcs)"

definition new_sources :: "(string \<Rightarrow> string) \<Rightarrow> (nat \<Rightarrow> json \<Rightarrow> exn + search_hit list) \<Rightarrow> exn + json
    \<Rightarrow> source_document list \<Rightarrow> json list \<Rightarrow> source_document list" where
  "new_sources netloc tavily answer existing queries =
     (let all_sources = snd (search_all netloc tavily 0 queries (set (map url existing), []))
      in if all_sources \<noteq> [] then categorize_sources answer all_sources else all_sources)"

definition retriever_run :: "(string \<Rightarrow> string) \<Rightarrow> (nat \<Rightarrow> json \<Rightarrow> exn + search_hit list) \<Rightarrow> exn + json
    \<Rightarrow> research_state \<Rightarrow> exn + research_state" where
  "retriever_run netloc tavily answer state =
     andthen (py_iter (sget (sub_queries state) (JArr []))) (\<lambda>queries.
       let existing_sources = sget (sources state) []
       in Inr (no_update\<lparr>sources :=
                 Some (existing_sources @ new_sources netloc tavily answer existing_sources queries)\<rparr>))"

subsection \<open>Analysis\<close>

text \<open>\<^verbatim>\<open>agents/analysis_agent.py\<close>. The em dash of the source's messages is its UTF-8 bytes.\<close>

definition em_dash :: string where
  "em_dash = [CHR 0xE2, CHR 0x80, CHR 0x94]"

definition analysis_try :: "exn + json \<Rightarrow> exn + dict" where
  "analysis_try answer =
     andthen answer (\<lambda>result.
     andthen (as_dict result) (\<lambda>r.
       let found = [(''executive_summary'', dget r ''executive_summary'' (JStr [])),
                    (''findings'', dget r ''findings'' (JArr [])),
                    (''contradictions'', dget r ''contradictions'' (JArr [])),
                    (''gaps'', dget r ''gaps'' (JArr [])),
                    (''source_assessments'', dget r ''source_assessments'' (JArr []))]
       in andthen (py_len (dget found ''findings'' JNull)) (\<lambda>_.
          andthen (py_len (dget found ''contradictions'' JNull)) (\<lambda>_.
          andthen (py_len (dget found ''gaps'' JNull)) (\<lambda>_. Inr found)))))"

definition analysis_fallback :: "exn \<Rightarrow> dict" where
  "analysis_fallback e =
     [(''executive_summary'', JStr (''Analysis encountered an error: '' @ str_exn e)),
      (''findings'', JArr []),
      (''contradictions'', JArr []),
      (''gaps'', JArr [JStr (''Analysis failed '' @ em_dash @ '' manual review recommended'')]),
      (''source_assessments'', JArr [])]"

definition analysis_run :: "research_state \<Rightarrow> exn + json \<Rightarrow> exn + research_state" where
  "analysis_run state answer =
     (if sget (sources state) [] = [] then
        Inr (no_update\<lparr>analysis := Some
          [(''executive_summary'', JStr ''No sources were found for this query.''),
           (''findings'', JArr []),
           (''contradictions'', JArr []),
           (''gaps'', JArr [JStr ''No sources were retrieved'']),
           (''source_assessments'', JArr [])]\<rparr>)
      else case analysis_try answer of
        Inr found \<Rightarrow> Inr (no_update\<lparr>analysis := Some found\<rparr>)
      | Inl e \<Rightarrow>
          Inr (no_update\<lparr>analysis := Some (analysis_fallback e),
                 errors := Some (sget (errors state) [] @ [''Analysis: '' @ str_exn e])\<rparr>))"

subsection \<open>Fact checker\<close>

text \<open>
  \<^verbatim>\<open>agents/fact_checker_agent.py\<close>. \<^verbatim>\<open>_format_findings\<close> runs before the \<^verbatim>\<open>try\<close> and
  calls \<^verbatim>\<open>get\<close> on every finding; \<open>iter_dicts\<close> is that loop, and its result is the
  findings the fallback walks through again.
\<close>

definition fact_check_try :: "exn + json \<Rightarrow> exn + dict" where
  "fact_check_try answer =
     andthen answer (\<lambda>result.
     andthen (as_dict result) (\<lambda>r.
       let checked = [(''verified_claims'', dget r ''verified_claims'' (JArr [])),
                      (''overall_reliability_score'', dget r ''overall_reliability_score'' (JInt 50)),
                      (''warnings'', dget r ''warnings'' (JArr [])),
                      (''contradiction_details'', dget r ''contradiction_details'' (JArr []))]
       in andthen (iter_dicts (dget checked ''verified_claims'' JNull)) (\<lambda>_.
          andthen (iter_dicts (dget checked ''verified_claims'' JNull)) (\<lambda>_. Inr checked))))"

definition unverified_claim :: "dict \<Rightarrow> json" where
  "unverified_claim f =
     JObj [(''claim'', dget f ''claim'' (JStr [])),
           (''confidence_score'', JInt 50),
           (''status'', JStr ''unverified''),
           (''supporting_sources'', dget f ''source_indices'' (JArr [])),
           (''contradicting_sources'', JArr []),
           (''reasoning'', JStr (''Fact-check unavailable '' @ em_dash @ '' treating as unverified''))]"

definition fact_check_fallback :: "dict list \<Rightarrow> exn \<Rightarrow> dict" where
  "fact_check_fallback findings e =
     [(''verified_claims'', JArr (map unverified_claim findings)),
      (''overall_reliability_score'', JInt 40),
      (''warnings'', JArr [JStr (''Fact-checking failed ('' @ take 80 (str_exn e)
                                   @ ''). All claims marked as unverified.'')]),
      (''contradiction_details'', JArr [])]"

definition fact_checker_run :: "research_state \<Rightarrow> exn + json \<Rightarrow> exn + research_state" where
  "fact_checker_run state answer =
     (let findings = dget (sget (analysis state) []) ''findings'' (JArr []) in
      if \<not> truthy findings then
        Inr (no_update\<lparr>fact_check := Some
          [(''verified_claims'', JArr []),
           (''overall_reliability_score'', JInt 0),
           (''warnings'', JArr [JStr ''No findings available for fact-checking'']),
           (''contradiction_details'', JArr [])]\<rparr>)
      else andthen (iter_dicts findings) (\<lambda>fs.
        case fact_check_try answer of
          Inr checked \<Rightarrow> Inr (no_update\<lparr>fact_check := Some checked\<rparr>)
        | Inl e \<Rightarrow>
            Inr (no_update\<lparr>fact_check := Some (fact_check_fallback fs e),
                   errors := Some (sget (errors state) [] @ [''FactChecker: '' @ str_exn e])\<rparr>)))"

subsection \<open>Insights\<close>

text \<open>
  \<^verbatim>\<open>agents/insight_agent.py\<close>. A claim's first 80 characters are used as a dictionary key:
  the claim must be sliceable and the slice hashable.
\<close>

fun hashable :: "json \<Rightarrow> bool" where
  "hashable (JArr xs) = False"
| "hashable (JObj d) = False"
| "hashable _ = True"

definition claim_key :: "nat \<Rightarrow> json \<Rightarrow> exn + json" where
  "claim_key n x =
     andthen (as_dict x) (\<lambda>d.
     andthen (py_slice_to (dget d ''claim'' (JStr [])) (int n)) (\<lambda>k.
       if hashable k then Inr k else Inl TypeError))"

definition insight_format :: "dict \<Rightarrow> dict \<Rightarrow> exn + unit" where
  "insight_format found checked =
     (let findings = dget found ''findings'' (JArr []);
          verified = dget checked ''verified_claims'' (JArr []);
          gaps = dget found ''gaps'' (JArr []);
          warnings = dget checked ''warnings'' (JArr [])
      in andthen (py_iter verified) (\<lambda>vs.
         andthen (map_exn (claim_key 80) vs) (\<lambda>_.
         andthen (py_iter findings) (\<lambda>fs.
         andthen (map_exn (claim_key 80) fs) (\<lambda>_.
         andthen (iter_dicts verified) (\<lambda>_.
         andthen (iter_dicts verified) (\<lambda>_.
         andthen (py_len verified) (\<lambda>_.
         andthen (iter_if_true warnings) (\<lambda>_.
         andthen (iter_if_true gaps) (\<lambda>_. Inr ()))))))))))"

definition insight_try :: "exn + json \<Rightarrow> exn + dict" where
  "insight_try answer =
     andthen answer (\<lambda>result.
     andthen (as_dict result) (\<lambda>r.
       let seen = [(''hypotheses'', dget r ''hypotheses'' (JArr [])),
                   (''trends'', dget r ''trends'' (JArr [])),
                   (''key_patterns'', dget r ''key_patterns'' (JArr [])),
                   (''implications'', dget r ''implications'' (JArr [])),
                   (''further_questions'', dget r ''further_questions'' (JArr []))]
       in andthen (py_len (dget seen ''hypotheses'' JNull)) (\<lambda>_.
          andthen (py_len (dget seen ''trends'' JNull)) (\<lambda>_.
          andthen (py_len (dget seen ''key_patterns'' JNull)) (\<lambda>_. Inr seen)))))"

definition insight_fallback :: "exn \<Rightarrow> dict" where
  "insight_fallback e =
     [(''hypotheses'', JArr []),
      (''trends'', JArr []),
      (''key_patterns'', JArr []),
      (''implications'', JArr [JStr (''Insight generation encountered an error: '' @ str_exn e)]),
      (''further_questions'',
         JArr [JStr ''What are the main factors driving this topic?'',
               JStr ''What are experts predicting for the near future?''])]"

definition insight_run :: "research_state \<Rightarrow> exn + json \<Rightarrow> exn + research_state" where
  "insight_run state answer =
     andthen (insight_format (sget (analysis state) []) (sget (fact_check state) [])) (\<lambda>_.
       case insight_try answer of
         Inr seen \<Rightarrow> Inr (no_update\<lparr>insights := Some seen\<rparr>)
       | Inl e \<Rightarrow>
           Inr (no_update\<lparr>insights := Some (insight_fallback e),
                  errors := Some (sget (errors state) [] @ [''Insights: '' @ str_exn e])\<rparr>))"

subsection \<open>Report\<close>

text \<open>
  \<^verbatim>\<open>agents/report_agent.py\<close>. \<^verbatim>\<open>_format_verified_findings\<close> looks, for every finding, for
  the first verified claim whose first 60 characters equal the finding's, with Python's
  \<^verbatim>\<open>==\<close> on decoded values.
\<close>

fun num_of :: "json \<Rightarrow> pyfloat option" where
  "num_of (JBool b) = Some (Finite (if b then 1 else 0))"
| "num_of (JInt i) = Some (Finite (of_int i))"
| "num_of (JFloat x) = Some x"
| "num_of _ = None"

fun float_eq :: "pyfloat \<Rightarrow> pyfloat \<Rightarrow> bool" where
  "float_eq (Finite a) (Finite b) = (a = b)"
| "float_eq PosInf PosInf = True"
| "float_eq NegInf NegInf = True"
| "float_eq _ _ = False"

fun py_eq :: "json \<Rightarrow> json \<Rightarrow> bool"
  and py_eq_list :: "json list \<Rightarrow> json list \<Rightarrow> bool"
  and py_eq_items :: "(string \<times> json) list \<Rightarrow> (string \<times> json) list \<Rightarrow> bool" where
  "py_eq JNull JNull = True"
| "py_eq (JStr a) (JStr b) = (a = b)"
| "py_eq (JArr a) (JArr b) = py_eq_list a b"
| "py_eq (JObj a) (JObj b) = (length a = length b \<and> py_eq_items a b)"
| "py_eq a b = (case (num_of a, num_of b) of (Some x, Some y) \<Rightarrow> float_eq x y | _ \<Rightarrow> False)"
| "py_eq_list [] [] = True"
| "py_eq_list (x # xs) (y # ys) = (py_eq x y \<and> py_eq_list xs ys)"
| "py_eq_list _ _ = False"
| "py_eq_items [] b = True"
| "py_eq_items ((k, v) # kvs) b =
     (case map_of b k of None \<Rightarrow> False | Some w \<Rightarrow> py_eq v w \<and> py_eq_items kvs b)"

fun find_claim :: "json \<Rightarrow> json list \<Rightarrow> exn + unit" where
  "find_claim claim [] = Inr ()"
| "find_claim claim (v # vs) =
     andthen (as_dict v) (\<lambda>d.
     andthen (py_slice_to (dget d ''claim'' (JStr [])) 60) (\<lambda>l.
     andthen (py_slice_to claim 60) (\<lambda>r.
       if py_eq l r then Inr () else find_claim claim vs)))"

definition match_claim :: "json \<Rightarrow> json \<Rightarrow> exn + unit" where
  "match_claim verified f =
     andthen (as_dict f) (\<lambda>d.
     andthen (py_iter verified) (\<lambda>vs. find_claim (dget d ''claim'' (JStr [])) vs))"

definition report_format :: "dict \<Rightarrow> dict \<Rightarrow> dict \<Rightarrow> exn + unit" where
  "report_format found checked seen =
     (let findings = dget found ''findings'' (JArr []);
          verified = dget checked ''verified_claims'' (JArr []);
          contradictions = dget found ''contradictions'' (JArr []);
          gaps = dget found ''gaps'' (JArr []);
          warnings = dget checked ''warnings'' (JArr [])
      in andthen (py_iter findings) (\<lambda>fs.
         andthen (map_exn (match_claim verified) fs) (\<lambda>_.
         andthen (if truthy contradictions then iter_dicts contradictions else Inr []) (\<lambda>_.
         andthen (iter_if_true gaps) (\<lambda>_.
         andthen (iter_if_true warnings) (\<lambda>_.
         andthen (iter_dicts (dget seen ''hypotheses'' (JArr []))) (\<lambda>_.
         andthen (iter_dicts (dget seen ''trends'' (JArr []))) (\<lambda>_.
         andthen (py_iter (dget seen ''key_patterns'' (JArr []))) (\<lambda>_.
         andthen (py_iter (dget seen ''implications'' (JArr []))) (\<lambda>_. Inr ()))))))))))"

text \<open>
  \<^verbatim>\<open>float(x)\<close> on a decoded value; the conversion of a string is a parameter (\<open>None\<close> when
  the string is no number).
\<close>

fun py_float :: "(string \<Rightarrow> pyfloat option) \<Rightarrow> json \<Rightarrow> exn + pyfloat" where
  "py_float fos (JInt i) = Inr (Finite (of_int i))"
| "py_float fos (JFloat x) = Inr x"
| "py_float fos (JBool b) = Inr (Finite (if b then 1 else 0))"
| "py_float fos (JStr s) = (case fos s of None \<Rightarrow> Inl (ValueError ''ValueError'') | Some x \<Rightarrow> Inr x)"
| "py_float fos _ = Inl TypeError"

definition sources_cited :: "source_document list \<Rightarrow> json" where
  "sources_cited srcs = JArr (map (\<lambda>s. JObj [(''title'', JStr (title s)), (''url'', JStr (url s))]) srcs)"

definition methodology_note :: string where
  "methodology_note =
     ''This report was generated using a multi-agent AI research system ''
     @ ''with automated web search, critical analysis, fact-checking, ''
     @ ''and insight generation.''"

definition report_try :: "(string \<Rightarrow> pyfloat option) \<Rightarrow> string \<Rightarrow> string \<Rightarrow> source_document list \<Rightarrow> json
    \<Rightarrow> exn + json \<Rightarrow> exn + dict \<times> pyfloat" where
  "report_try fos now query srcs analysis_summary answer =
     andthen answer (\<lambda>result.
     andthen (as_dict result) (\<lambda>r.
     andthen (py_float fos (dget r ''quality_score'' (JInt 50))) (\<lambda>q.
       Inr ([(''title'', dget r ''title'' (JStr (''Research Report: '' @ query))),
             (''executive_summary'', dget r ''executive_summary'' analysis_summary),
             (''key_findings'', dget r ''key_findings'' (JArr [])),
             (''contradictions_and_gaps'', dget r ''contradictions_and_gaps'' (JStr [])),
             (''insights_and_trends'', dget r ''insights_and_trends'' (JStr [])),
             (''source_reliability'', dget r ''source_reliability'' (JStr [])),
             (''methodology_note'', dget r ''methodology_note'' (JStr methodology_note)),
             (''sources_cited'', sources_cited srcs),
             (''quality_score'', JFloat q),
             (''quality_breakdown'', dget r ''quality_breakdown'' (JObj [])),
             (''follow_up_queries'', dget r ''follow_up_queries'' (JArr [])),
             (''generated_at'', JStr now)], q))))"

text \<open>
  \<^verbatim>\<open>_build_fallback_report\<close> runs inside the \<^verbatim>\<open>except\<close> block: what it raises leaves
  the agent. \<^verbatim>\<open>str(x)\<close> of a decoded value is a parameter.
\<close>

definition fallback_finding :: "json \<Rightarrow> exn + json" where
  "fallback_finding f =
     andthen (as_dict f) (\<lambda>d.
     andthen (py_len (dget d ''source_indices'' (JArr []))) (\<lambda>n.
       Inr (JObj [(''finding'', dget d ''claim'' (JStr [])),
                  (''confidence'', JInt 50),
                  (''sources_count'', JInt (int n))])))"

definition build_fallback_report :: "(json \<Rightarrow> string) \<Rightarrow> string \<Rightarrow> string \<Rightarrow> source_document list
    \<Rightarrow> dict \<Rightarrow> dict \<Rightarrow> dict \<Rightarrow> string \<Rightarrow> exn + dict" where
  "build_fallback_report str now query srcs found checked seen error =
     andthen (py_slice_to (dget found ''findings'' (JArr [])) 10) (\<lambda>first.
     andthen (py_iter first) (\<lambda>fs.
     andthen (map_exn fallback_finding fs) (\<lambda>key_findings.
       Inr [(''title'', JStr (''Research Report: '' @ query)),
            (''executive_summary'', dget found ''executive_summary''
               (JStr ''Report generation encountered an error. Raw findings are included below.'')),
            (''key_findings'', JArr key_findings),
            (''contradictions_and_gaps'',
               JStr (''Report builder error '' @ em_dash @ '' review raw analysis data.'')),
            (''insights_and_trends'', JStr (str (dget seen ''hypotheses'' (JArr [])))),
            (''source_reliability'',
               JStr (''Overall reliability: ''
                     @ str (dget checked ''overall_reliability_score'' (JStr ''N/A'')) @ ''/100'')),
            (''methodology_note'',
               JStr (''Note: Report assembly encountered an error ('' @ take 100 error @ ''). ''
                     @ ''This is a fallback report with reduced formatting.'')),
            (''sources_cited'', sources_cited srcs),
            (''quality_score'', JInt 30),
            (''quality_breakdown'', JObj []),
            (''follow_up_queries'', JArr [JStr query]),
            (''generated_at'', JStr now)])))"

definition report_run :: "(string \<Rightarrow> pyfloat option) \<Rightarrow> (json \<Rightarrow> string) \<Rightarrow> string \<Rightarrow> research_state
    \<Rightarrow> exn + json \<Rightarrow> exn + research_state" where
  "report_run fos str now state answer =
     (let query = sget (original_query state) [];
          srcs = sget (sources state) [];
          found = sget (analysis state) [];
          checked = sget (fact_check state) [];
          seen = sget (insights state) [];
          analysis_summary = dget found ''executive_summary'' (JStr ''No analysis available.'')
      in andthen (report_format found checked seen) (\<lambda>_.
           case report_try fos now query srcs analysis_summary answer of
             Inr (built, q) \<Rightarrow> Inr (no_update\<lparr>report := Some built, quality_score := Some q\<rparr>)
           | Inl e \<Rightarrow>
               andthen (build_fallback_report str now query srcs found checked seen (str_exn e))
                 (\<lambda>fallback_report.
                    Inr (no_update\<lparr>report := Some fallback_report,
                           quality_score := Some (Finite 30),
                           errors := Some (sget (errors state) [] @ [''Report: '' @ str_exn e])\<rparr>))))"

section \<open>The graph\<close>

text \<open>
  \<^verbatim>\<open>orchestrator/graph.py\<close>. The library functions the agents call (\<^verbatim>\<open>json.loads\<close>,
  \<^verbatim>\<open>float\<close> on a string, \<^verbatim>\<open>urlparse(...).netloc\<close>, \<^verbatim>\<open>str\<close>) are the record \<open>library\<close>.
  What the outside world does during one pass of the pipeline is the record \<open>pass_env\<close>:
  for each agent, what its chat call (with its retries) raises or answers, what the
  search service does on each call, and the clock's reading.
\<close>

record library =
  json_loads :: "string \<Rightarrow> json option"
  float_of_str :: "string \<Rightarrow> pyfloat option"
  url_netloc :: "string \<Rightarrow> string"
  py_str :: "json \<Rightarrow> string"

record pass_env =
  decomposer_answer :: "exn + string"
  tavily :: "nat \<Rightarrow> json \<Rightarrow> exn + search_hit list"
  retriever_answer :: "exn + string"
  analysis_answer :: "exn + string"
  fact_checker_answer :: "exn + string"
  insight_answer :: "exn + string"
  report_answer :: "exn + string"
  now :: string

text \<open>The node functions of \<^verbatim>\<open>create_research_graph\<close>.\<close>

definition decompose :: "settings \<Rightarrow> library \<Rightarrow> pass_env \<Rightarrow> research_state \<Rightarrow> exn + research_state" where
  "decompose cfg lib env state =
     decomposer_run cfg state (chat_json (json_loads lib) (decomposer_answer env))"

definition retrieve :: "library \<Rightarrow> pass_env \<Rightarrow> research_state \<Rightarrow> exn + research_state" where
  "retrieve lib env state =
     retriever_run (url_netloc lib) (tavily env)
       (chat_json (json_loads lib) (retriever_answer env)) state"

definition analyze :: "library \<Rightarrow> pass_env \<Rightarrow> research_state \<Rightarrow> exn + research_state" where
  "analyze lib env state = analysis_run state (chat_json (json_loads lib) (analysis_answer env))"

definition fact_check_node :: "library \<Rightarrow> pass_env \<Rightarrow> research_state \<Rightarrow> exn + research_state" where
  "fact_check_node lib env state =
     fact_checker_run state (chat_json (json_loads lib) (fact_checker_answer env))"

definition generate_insights :: "library \<Rightarrow> pass_env \<Rightarrow> research_state \<Rightarrow> exn + research_state" where
  "generate_insights lib env state =
     insight_run state (chat_json (json_loads lib) (insight_answer env))"

definition build_report :: "library \<Rightarrow> pass_env \<Rightarrow> research_state \<Rightarrow> exn + research_state" where
  "build_report lib env state =
     report_run (float_of_str lib) (py_str lib) (now env) state
       (chat_json (json_loads lib) (report_answer env))"

text \<open>
  The linear edges: the nodes run in order, each on the state with the earlier updates
  applied. When a node raises, the exception leaves the graph; the state reached so far
  is returned beside it.
\<close>

fun run_nodes :: "(research_state \<Rightarrow> exn + research_state) list \<Rightarrow> research_state
    \<Rightarrow> exn \<times> research_state + research_state" where
  "run_nodes [] state = Inr state"
| "run_nodes (node # nodes) state =
     (case node state of
        Inl e \<Rightarrow> Inl (e, state)
      | Inr update \<Rightarrow> run_nodes nodes (apply_update state update))"

definition pipeline :: "settings \<Rightarrow> library \<Rightarrow> pass_env \<Rightarrow> (research_state \<Rightarrow> exn + research_state) list" where
  "pipeline cfg lib env =
     [decompose cfg lib env, retrieve lib env, analyze lib env, fact_check_node lib env,
      generate_insights lib env, build_report lib env]"

section \<open>The quality gate\<close>

text \<open>\<^verbatim>\<open>orchestrator/graph.py\<close>, \<^verbatim>\<open>quality_gate\<close> and \<^verbatim>\<open>increment_iteration\<close>.\<close>

definition quality_gate :: "settings \<Rightarrow> research_state \<Rightarrow> string" where
  "quality_gate cfg state =
     (let quality = sget (quality_score state) (Finite 0);
          iteration = sget (iteration state) 0;
          max_iter = sget (max_iterations state) (MAX_ITERATIONS cfg);
          threshold = QUALITY_THRESHOLD cfg
      in if py_ge quality threshold then ''accept''
         else if iteration + 1 \<ge> max_iter then ''accept''
         else ''refine'')"

definition increment_iteration :: "research_state \<Rightarrow> research_state" where
  "increment_iteration state = no_update\<lparr>iteration := Some (sget (iteration state) 0 + 1)\<rparr>"

text \<open>The score the gate reads is below the configured threshold.\<close>

definition below_threshold :: "settings \<Rightarrow> research_state \<Rightarrow> bool" where
  "below_threshold cfg s = (\<not> py_ge (sget (quality_score s) (Finite 0)) (QUALITY_THRESHOLD cfg))"

text \<open>A state that holds the three keys the gate reads, for the table of the specification.\<close>

definition gate_state :: "pyfloat \<Rightarrow> int \<Rightarrow> int \<Rightarrow> research_state" where
  "gate_state score it mx =
     no_update\<lparr>quality_score := Some score, iteration := Some it, max_iterations := Some mx\<rparr>"

section \<open>The reflection loop\<close>

text \<open>
  No agent writes the keys \<^verbatim>\<open>iteration\<close> and \<^verbatim>\<open>max_iterations\<close>; the loop's termination
  rests on it.
\<close>

definition keeps_counters :: "(research_state \<Rightarrow> exn + research_state) \<Rightarrow> bool" where
  "keeps_counters node = (\<forall>s u. node s = Inr u \<longrightarrow> iteration u = None \<and> max_iterations u = None)"

lemma decompose_keeps: "keeps_counters (decompose cfg lib env)"
  unfolding keeps_counters_def decompose_def decomposer_run_def Let_def
  by (auto simp add: andthen_def no_update_def split: sum.splits)

lemma retrieve_keeps: "keeps_counters (retrieve lib env)"
  unfolding keeps_counters_def retrieve_def retriever_run_def Let_def
  by (auto simp add: andthen_def no_update_def split: sum.splits)

lemma analyze_keeps: "keeps_counters (analyze lib env)"
  unfolding keeps_counters_def analyze_def analysis_run_def
  by (auto simp add: no_update_def split: sum.splits if_splits)

lemma fact_check_keeps: "keeps_counters (fact_check_node lib env)"
  unfolding keeps_counters_def fact_check_node_def fact_checker_run_def Let_def
  by (auto simp add: andthen_def no_update_def split: sum.splits if_splits)

lemma insights_keeps: "keeps_counters (generate_insights lib env)"
  unfolding keeps_counters_def generate_insights_def insight_run_def
  by (auto simp add: andthen_def no_update_def split: sum.splits)

lemma report_keeps: "keeps_counters (build_report lib env)"
  unfolding keeps_counters_def build_report_def report_run_def Let_def
  by (auto simp add: andthen_def no_update_def split: sum.splits prod.splits)

lemma run_nodes_counters:
  "list_all keeps_counters nodes \<Longrightarrow> run_nodes nodes s = Inr s' \<Longrightarrow>
     iteration s' = iteration s \<and> max_iterations s' = max_iterations s"
proof (induction nodes arbitrary: s)
  case Nil
  then show ?case by simp
next
  case (Cons node nodes)
  from Cons.prems(2) obtain u where u: "node s = Inr u" and rest: "run_nodes nodes (apply_update s u) = Inr s'"
    by (auto split: sum.splits)
  from Cons.prems(1) u have "iteration u = None \<and> max_iterations u = None"
    by (simp add: keeps_counters_def)
  then have "iteration (apply_update s u) = iteration s \<and> max_iterations (apply_update s u) = max_iterations s"
    by (simp add: apply_update_def override_def)
  moreover from Cons.IH[OF _ rest] Cons.prems(1)
  have "iteration s' = iteration (apply_update s u) \<and> max_iterations s' = max_iterations (apply_update s u)"
    by simp
  ultimately show ?case by simp
qed

lemma pipeline_counters:
  "run_nodes (pipeline cfg lib env) s = Inr s' \<Longrightarrow>
     iteration s' = iteration s \<and> max_iterations s' = max_iterations s"
  by (rule run_nodes_counters[of "pipeline cfg lib env"])
     (simp_all add: pipeline_def decompose_keeps retrieve_keeps analyze_keeps fact_check_keeps
        insights_keeps report_keeps)

record run_trace =
  passes :: nat
  judged :: "research_state list"
  final :: "exn \<times> research_state + research_state"

function graph_loop :: "settings \<Rightarrow> library \<Rightarrow> (nat \<Rightarrow> pass_env) \<Rightarrow> nat \<Rightarrow> research_state list
    \<Rightarrow> research_state \<Rightarrow> run_trace" where
  "graph_loop cfg lib env k hist state =
     (case run_nodes (pipeline cfg lib (env k)) state of
        Inl failure \<Rightarrow> \<lparr>passes = Suc k, judged = hist, final = Inl failure\<rparr>
      | Inr reported \<Rightarrow>
          if quality_gate cfg reported = ''accept''
          then \<lparr>passes = Suc k, judged = hist @ [reported], final = Inr reported\<rparr>
          else graph_loop cfg lib env (Suc k) (hist @ [reported])
                 (apply_update reported (increment_iteration reported)))"
  by pat_completeness auto
termination
proof (relation "measure (\<lambda>(cfg, lib, env, k, hist, s).
          nat (sget (max_iterations s) (MAX_ITERATIONS cfg) - sget (iteration s) 0))")
  show "wf (measure (\<lambda>(cfg, lib, env, k, hist, s).
          nat (sget (max_iterations s) (MAX_ITERATIONS cfg) - sget (iteration s) 0)))"
    by simp
next
  fix cfg :: settings and lib :: library and env :: "nat \<Rightarrow> pass_env" and k :: nat
    and hist :: "research_state list" and state reported :: research_state
  assume run: "run_nodes (pipeline cfg lib (env k)) state = Inr reported"
    and gate: "quality_gate cfg reported \<noteq> ''accept''"
  from run have same: "iteration reported = iteration state" "max_iterations reported = max_iterations state"
    using pipeline_counters by blast+
  from gate have "sget (iteration reported) 0 + 1 < sget (max_iterations reported) (MAX_ITERATIONS cfg)"
    by (simp add: quality_gate_def Let_def split: if_splits)
  with same show "((cfg, lib, env, Suc k, hist @ [reported], apply_update reported (increment_iteration reported)),
           (cfg, lib, env, k, hist, state))
         \<in> measure (\<lambda>(cfg, lib, env, k, hist, s).
             nat (sget (max_iterations s) (MAX_ITERATIONS cfg) - sget (iteration s) 0))"
    by (simp add: apply_update_def increment_iteration_def override_def no_update_def sget_def)
qed

declare graph_loop.simps [simp del]

text \<open>
  \<^verbatim>\<open>graph_loop\<close> above is the compiled graph from its entry point: one pass through the
  pipeline, then the conditional edge; \<^verbatim>\<open>accept\<close> leads to \<^verbatim>\<open>END\<close>, \<^verbatim>\<open>refine\<close> to
  \<^verbatim>\<open>increment_iteration\<close> and back to \<^verbatim>\<open>decompose\<close>. The trace records the number of
  passes begun, the states the gate judged, and how the invocation ended. The graph
  library's own limit on the number of steps is not part of the source and is not
  modelled.

  \<^verbatim>\<open>run_research\<close>: the clients and the graph are taken as built; \<open>env k\<close> is the outside
  world during pass \<open>k\<close>.
\<close>

definition initial_state :: "settings \<Rightarrow> string \<Rightarrow> int option \<Rightarrow> research_state" where
  "initial_state cfg query max_iter =
     \<lparr>original_query = Some query,
      sub_queries = Some (JArr []),
      sources = Some [],
      analysis = Some [],
      fact_check = Some [],
      insights = Some [],
      report = Some [],
      iteration = Some 0,
      max_iterations = Some (case max_iter of
                               None \<Rightarrow> MAX_ITERATIONS cfg
                             | Some n \<Rightarrow> if n = 0 then MAX_ITERATIONS cfg else n),
      quality_score = Some (Finite 0),
      errors = Some []\<rparr>"

definition research_trace :: "settings \<Rightarrow> library \<Rightarrow> (nat \<Rightarrow> pass_env) \<Rightarrow> string \<Rightarrow> int option \<Rightarrow> run_trace" where
  "research_trace cfg lib env query max_iter = graph_loop cfg lib env 0 [] (initial_state cfg query max_iter)"

definition run_research :: "settings \<Rightarrow> library \<Rightarrow> (nat \<Rightarrow> pass_env) \<Rightarrow> string \<Rightarrow> int option \<Rightarrow> research_state" where
  "run_research cfg lib env query max_iter =
     (case final (research_trace cfg lib env query max_iter) of
        Inr result \<Rightarrow> result
      | Inl (e, reached) \<Rightarrow> (initial_state cfg query max_iter)\<lparr>errors := Some [str_exn e]\<rparr>)"

text \<open>The state the graph had reached when an exception left it.\<close>

definition partial_state :: "run_trace \<Rightarrow> research_state option" where
  "partial_state t = (case final t of Inl (e, reached) \<Rightarrow> Some reached | Inr result \<Rightarrow> None)"

section \<open>Examples of the outside world\<close>

text \<open>
  In \<open>failing_env\<close> every service raises. In \<open>low_env\<close> the report model answers with a
  score of 10; in \<open>gap_env\<close> it also names a number where a list of follow-up queries is
  expected. \<open>scenario_env\<close> is the specification's scenario: a score of 50 on the first
  pass and of 72 afterwards. The conversions \<open>float_of_str\<close> and \<open>py_str\<close> of
  \<open>sample_library\<close> are never reached in these examples.
\<close>

definition more_loads :: "string \<Rightarrow> json option" where
  "more_loads = map_of
     [(''{\"quality_score\": 10}'', JObj [(''quality_score'', JInt 10)]),
      (''{\"quality_score\": 50}'', JObj [(''quality_score'', JInt 50)]),
      (''{\"quality_score\": 72}'', JObj [(''quality_score'', JInt 72)]),
      (''{\"quality_score\": 10, \"follow_up_queries\": 5}'',
         JObj [(''quality_score'', JInt 10), (''follow_up_queries'', JInt 5)])]"

definition sample_netloc :: "string \<Rightarrow> string" where
  "sample_netloc u =
     (if u = ''https://www.who.int/ai'' then ''www.who.int''
      else if u = ''https://arxiv.org/abs/1'' then ''arxiv.org''
      else [])"

definition sample_library :: library where
  "sample_library =
     \<lparr>json_loads = (\<lambda>t. case sample_loads t of Some v \<Rightarrow> Some v | None \<Rightarrow> more_loads t),
      float_of_str = (\<lambda>_. None),
      url_netloc = sample_netloc,
      py_str = (\<lambda>_. [])\<rparr>"

definition failing_env :: pass_env where
  "failing_env =
     \<lparr>decomposer_answer = Inl (CapabilityError ''timeout''),
      tavily = (\<lambda>i q. Inl (CapabilityError ''search unavailable'')),
      retriever_answer = Inl (CapabilityError ''timeout''),
      analysis_answer = Inl (CapabilityError ''timeout''),
      fact_checker_answer = Inl (CapabilityError ''timeout''),
      insight_answer = Inl (CapabilityError ''timeout''),
      report_answer = Inl (CapabilityError ''timeout''),
      now = ''2025-01-01T00:00:00''\<rparr>"

definition low_env :: pass_env where
  "low_env = failing_env\<lparr>report_answer := Inr ''{\"quality_score\": 10}''\<rparr>"

definition gap_env :: pass_env where
  "gap_env = failing_env\<lparr>report_answer := Inr ''{\"quality_score\": 10, \"follow_up_queries\": 5}''\<rparr>"

definition scenario_env :: "nat \<Rightarrow> pass_env" where
  "scenario_env k =
     failing_env\<lparr>report_answer :=
       Inr (if k = 0 then ''{\"quality_score\": 50}'' else ''{\"quality_score\": 72}'')\<rparr>"

text \<open>A search service with three hits, two of them for the same page.\<close>

definition who_hit :: search_hit where
  "who_hit = \<lparr>hit_title = Some ''AI for health'', hit_url = Some ''https://www.who.int/ai'',
               hit_content = Some ''guidance on AI'', hit_score = Some (Finite 0.9)\<rparr>"

definition arxiv_hit :: search_hit where
  "arxiv_hit = \<lparr>hit_title = Some ''A survey'', hit_url = Some ''https://arxiv.org/abs/1'',
                 hit_content = Some ''we survey'', hit_score = Some (Finite 0.8)\<rparr>"

definition sample_tavily :: "nat \<Rightarrow> json \<Rightarrow> exn + search_hit list" where
  "sample_tavily i q = (if i = 0 then Inr [who_hit, arxiv_hit, who_hit] else Inr [arxiv_hit])"

definition who_source :: source_document where
  "who_source = to_source sample_netloc (JStr ''earlier'') who_hit"

text \<open>
  \<open>rich_env\<close> is \<open>low_env\<close> with the search service above; \<open>earlier_state\<close> holds one
  source from an earlier pass and two sub-queries.
\<close>

definition rich_env :: pass_env where
  "rich_env = low_env\<lparr>tavily := sample_tavily\<rparr>"

definition earlier_state :: research_state where
  "earlier_state = no_update\<lparr>sub_queries := Some (JArr [JStr ''first'', JStr ''second'']),
                               sources := Some [who_source]\<rparr>"

text \<open>
  Two states after an analysis pass: in \<open>claimed_state\<close> the analysis holds one finding; in
  \<open>odd_findings_state\<close> the finding's \<^verbatim>\<open>source_indices\<close> is a number where a list is expected.
\<close>

definition odd_findings_state :: research_state where
  "odd_findings_state =
     (initial_state default_settings ''q'' None)
       \<lparr>analysis := Some [(''findings'', JArr [JObj [(''claim'', JStr ''c''), (''source_indices'', JInt 3)] ])]\<rparr>"

definition claimed_state :: research_state where
  "claimed_state =
     (initial_state default_settings ''q'' None)
       \<lparr>analysis := Some [(''findings'', JArr [JObj [(''claim'', JStr ''c'')] ])]\<rparr>"

section \<open>Properties of the quality gate\<close>

text \<open>
  C1. For every state the gate returns \<^verbatim>\<open>accept\<close> when the score is at least the
  configured threshold; otherwise \<^verbatim>\<open>accept\<close> when \<open>iteration + 1 \<ge> max_iterations\<close>;
  otherwise \<^verbatim>\<open>refine\<close> (absent keys read as score 0, iteration 0 and the configured
  \<^verbatim>\<open>MAX_ITERATIONS\<close>). The three rows of the specification's table follow.
\<close>

theorem quality_gate_decision:
  "quality_gate cfg state =
     (if py_ge (sget (quality_score state) (Finite 0)) (QUALITY_THRESHOLD cfg) then ''accept''
      else if sget (iteration state) 0 + 1 \<ge> sget (max_iterations state) (MAX_ITERATIONS cfg)
      then ''accept'' else ''refine'')
   \<and> quality_gate (cfg\<lparr>QUALITY_THRESHOLD := Finite 65\<rparr>) (gate_state (Finite 70) 0 3) = ''accept''
   \<and> quality_gate (cfg\<lparr>QUALITY_THRESHOLD := Finite 65\<rparr>) (gate_state (Finite 40) 0 3) = ''refine''
   \<and> quality_gate (cfg\<lparr>QUALITY_THRESHOLD := Finite 65\<rparr>) (gate_state (Finite 40) 2 3) = ''accept''"
  by (simp add: quality_gate_def gate_state_def no_update_def sget_def)

theorem quality_gate_decision_witness:
  "quality_gate default_settings (gate_state (Finite 70) 0 3) = ''accept''
   \<and> quality_gate default_settings (gate_state (Finite 40) 0 3) = ''refine''
   \<and> quality_gate default_settings (gate_state (Finite 40) 2 3) = ''accept''
   \<and> quality_gate default_settings (gate_state NaN 0 3) = ''refine''"
  using quality_gate_decision [of default_settings "gate_state (Finite 70) 0 3"]
        quality_gate_decision [of default_settings "gate_state (Finite 40) 0 3"]
        quality_gate_decision [of default_settings "gate_state (Finite 40) 2 3"]
        quality_gate_decision [of default_settings "gate_state NaN 0 3"]
  by (simp add: gate_state_def no_update_def sget_def default_settings_def)

section \<open>Properties of the reflection loop\<close>

lemma gate_cases: "quality_gate cfg s = ''accept'' \<or> quality_gate cfg s = ''refine''"
  by (simp add: quality_gate_def Let_def)

lemma refine_room:
  "quality_gate cfg s \<noteq> ''accept'' \<Longrightarrow>
     sget (iteration s) 0 + 1 < sget (max_iterations s) (MAX_ITERATIONS cfg)"
  by (simp add: quality_gate_def Let_def split: if_splits)

lemma incremented:
  "iteration (apply_update r (increment_iteration r)) = Some (sget (iteration r) 0 + 1)"
  "max_iterations (apply_update r (increment_iteration r)) = max_iterations r"
  by (simp_all add: apply_update_def increment_iteration_def override_def no_update_def)

lemma graph_loop_stop:
  "run_nodes (pipeline cfg lib (env k)) s = Inl failure \<Longrightarrow>
     graph_loop cfg lib env k hist s = \<lparr>passes = Suc k, judged = hist, final = Inl failure\<rparr>"
  by (subst graph_loop.simps) simp

lemma graph_loop_accept:
  "run_nodes (pipeline cfg lib (env k)) s = Inr reported \<Longrightarrow> quality_gate cfg reported = ''accept'' \<Longrightarrow>
     graph_loop cfg lib env k hist s = \<lparr>passes = Suc k, judged = hist @ [reported], final = Inr reported\<rparr>"
  by (subst graph_loop.simps) simp

lemma graph_loop_refine:
  "run_nodes (pipeline cfg lib (env k)) s = Inr reported \<Longrightarrow> quality_gate cfg reported \<noteq> ''accept'' \<Longrightarrow>
     graph_loop cfg lib env k hist s =
       graph_loop cfg lib env (Suc k) (hist @ [reported]) (apply_update reported (increment_iteration reported))"
  by (subst graph_loop.simps) simp


lemma graph_loop_judged:
  "\<exists>new. judged (graph_loop cfg lib env k hist s) = hist @ new
     \<and> length (filter (\<lambda>g. quality_gate cfg g = ''refine'') new) + Suc k
         = passes (graph_loop cfg lib env k hist s)
     \<and> length new \<le> passes (graph_loop cfg lib env k hist s) - k"
proof (induction cfg lib env k hist s rule: graph_loop.induct)
  case (1 cfg lib env k hist state)
  show ?case
  proof (cases "run_nodes (pipeline cfg lib (env k)) state")
    case (Inl failure)
    then show ?thesis by (simp add: graph_loop_stop)
  next
    case (Inr reported)
    show ?thesis
    proof (cases "quality_gate cfg reported = ''accept''")
      case True
      with Inr show ?thesis by (simp add: graph_loop_accept)
    next
      case False
      with gate_cases[of cfg reported] have refine: "quality_gate cfg reported = ''refine''" by simp
      from "1.IH"[OF Inr False] obtain new where
        new: "judged (graph_loop cfg lib env k hist state) = (hist @ [reported]) @ new"
          "length (filter (\<lambda>g. quality_gate cfg g = ''refine'') new) + Suc (Suc k)
             = passes (graph_loop cfg lib env k hist state)"
          "length new \<le> passes (graph_loop cfg lib env k hist state) - Suc k"
        by (auto simp add: graph_loop_refine[where env=env and k=k, OF Inr False])
      show ?thesis
      proof (intro exI[of _ "reported # new"] conjI)
        show "judged (graph_loop cfg lib env k hist state) = hist @ reported # new"
          using new(1) by simp
        show "length (filter (\<lambda>g. quality_gate cfg g = ''refine'') (reported # new)) + Suc k
                = passes (graph_loop cfg lib env k hist state)"
          using new(2) refine by simp
        show "length (reported # new) \<le> passes (graph_loop cfg lib env k hist state) - k"
          using new(2,3) by simp
      qed
    qed
  qed
qed

lemma graph_loop_hist:
  "set hist \<subseteq> set (judged (graph_loop cfg lib env k hist s))"
  using graph_loop_judged[of cfg lib env k hist s] by auto

lemma graph_loop_all_low:
  "final (graph_loop cfg lib env k hist s) = Inr f \<Longrightarrow>
   list_all (below_threshold cfg) (judged (graph_loop cfg lib env k hist s)) \<Longrightarrow>
   iteration s = Some i \<Longrightarrow> max_iterations s = Some m \<Longrightarrow> i < m \<Longrightarrow>
   passes (graph_loop cfg lib env k hist s) = k + nat (m - i)
     \<and> iteration f = Some (m - 1) \<and> max_iterations f = Some m
     \<and> quality_gate cfg f = ''accept''"
proof (induction cfg lib env k hist s arbitrary: i rule: graph_loop.induct)
  case (1 cfg lib env k hist state)
  show ?case
  proof (cases "run_nodes (pipeline cfg lib (env k)) state")
    case (Inl failure)
    with "1.prems"(1) show ?thesis by (simp add: graph_loop_stop)
  next
    case (Inr reported)
    from pipeline_counters[OF Inr] "1.prems"(3,4)
    have same: "iteration reported = Some i" "max_iterations reported = Some m"
      by simp_all
    show ?thesis
    proof (cases "quality_gate cfg reported = ''accept''")
      case True
      from "1.prems"(1,2) Inr True have f: "f = reported" and low: "below_threshold cfg reported"
        by (simp_all add: graph_loop_accept)
      from True low same have "m \<le> i + 1"
        by (simp add: quality_gate_def below_threshold_def Let_def sget_def split: if_splits)
      with "1.prems"(5) have "m = i + 1" by simp
      with Inr True f same show ?thesis by (simp add: graph_loop_accept)
    next
      case False
      note step = graph_loop_refine[where env=env and k=k, OF Inr False]
      from refine_room[OF False] same have room: "i + 1 < m" by (simp add: sget_def)
      have "passes (graph_loop cfg lib env (Suc k) (hist @ [reported])
                (apply_update reported (increment_iteration reported))) = Suc k + nat (m - (i + 1))
          \<and> iteration f = Some (m - 1) \<and> max_iterations f = Some m
          \<and> quality_gate cfg f = ''accept''"
      proof (rule "1.IH"[OF Inr False])
        show "final (graph_loop cfg lib env (Suc k) (hist @ [reported])
                (apply_update reported (increment_iteration reported))) = Inr f"
          using "1.prems"(1) by (simp add: step)
        show "list_all (below_threshold cfg) (judged (graph_loop cfg lib env (Suc k) (hist @ [reported])
                (apply_update reported (increment_iteration reported))))"
          using "1.prems"(2) by (simp add: step)
        show "iteration (apply_update reported (increment_iteration reported)) = Some (i + 1)"
          using same by (simp add: incremented sget_def)
        show "max_iterations (apply_update reported (increment_iteration reported)) = Some m"
          using same by (simp add: incremented)
        show "i + 1 < m" by (rule room)
      qed
      with room show ?thesis by (simp add: step nat_diff_distrib)
    qed
  qed
qed

lemma graph_loop_iteration:
  "final (graph_loop cfg lib env k hist s) = Inr f \<Longrightarrow> iteration s = Some i \<Longrightarrow>
   max_iterations s = Some m \<Longrightarrow>
   (\<exists>new. judged (graph_loop cfg lib env k hist s) = hist @ new
      \<and> iteration f = Some (i + int (length (filter (\<lambda>g. quality_gate cfg g = ''refine'') new))))
   \<and> (\<exists>j. iteration f = Some j \<and> i \<le> j \<and> j \<le> max i (m - 1))
   \<and> max_iterations f = Some m \<and> quality_gate cfg f = ''accept''"
proof (induction cfg lib env k hist s arbitrary: i rule: graph_loop.induct)
  case (1 cfg lib env k hist state)
  show ?case
  proof (cases "run_nodes (pipeline cfg lib (env k)) state")
    case (Inl failure)
    with "1.prems"(1) show ?thesis by (simp add: graph_loop_stop)
  next
    case (Inr reported)
    from pipeline_counters[OF Inr] "1.prems"(2,3)
    have same: "iteration reported = Some i" "max_iterations reported = Some m"
      by simp_all
    show ?thesis
    proof (cases "quality_gate cfg reported = ''accept''")
      case True
      with Inr "1.prems"(1) same show ?thesis by (auto simp add: graph_loop_accept)
    next
      case False
      note step = graph_loop_refine[where env=env and k=k, OF Inr False]
      from gate_cases[of cfg reported] False have refine: "quality_gate cfg reported = ''refine''"
        by simp
      from refine_room[OF False] same have room: "i + 1 < m" by (simp add: sget_def)
      have ih: "(\<exists>new. judged (graph_loop cfg lib env (Suc k) (hist @ [reported])
                    (apply_update reported (increment_iteration reported))) = (hist @ [reported]) @ new
            \<and> iteration f = Some (i + 1 + int (length (filter (\<lambda>g. quality_gate cfg g = ''refine'') new))))
          \<and> (\<exists>j. iteration f = Some j \<and> i + 1 \<le> j \<and> j \<le> max (i + 1) (m - 1))
          \<and> max_iterations f = Some m \<and> quality_gate cfg f = ''accept''"
      proof (rule "1.IH"[OF Inr False])
        show "final (graph_loop cfg lib env (Suc k) (hist @ [reported])
                (apply_update reported (increment_iteration reported))) = Inr f"
          using "1.prems"(1) by (simp add: step)
        show "iteration (apply_update reported (increment_iteration reported)) = Some (i + 1)"
          using same by (simp add: incremented sget_def)
        show "max_iterations (apply_update reported (increment_iteration reported)) = Some m"
          using same by (simp add: incremented)
      qed
      then obtain new where new: "judged (graph_loop cfg lib env k hist state) = hist @ reported # new"
        "iteration f = Some (i + 1 + int (length (filter (\<lambda>g. quality_gate cfg g = ''refine'') new)))"
        by (auto simp add: step)
      have "\<exists>new. judged (graph_loop cfg lib env k hist state) = hist @ new
          \<and> iteration f = Some (i + int (length (filter (\<lambda>g. quality_gate cfg g = ''refine'') new)))"
        by (rule exI[of _ "reported # new"]) (simp add: new refine)
      moreover from ih room have "\<exists>j. iteration f = Some j \<and> i \<le> j \<and> j \<le> max i (m - 1)"
        by auto
      ultimately show ?thesis using ih by blast
    qed
  qed
qed

lemma initial_counters:
  "iteration (initial_state cfg q mi) = Some 0"
  "1 \<le> N \<Longrightarrow> max_iterations (initial_state cfg q (Some N)) = Some N"
  by (simp_all add: initial_state_def)



text \<open>
  C3 (as amended). Let \<open>m \<ge> 1\<close> be the state's \<^verbatim>\<open>max_iterations\<close>. If no exception leaves the
  graph and the score is below the threshold after every pass, then exactly \<open>m\<close> passes
  are begun and the accepted state that \<^verbatim>\<open>run_research\<close> returns has \<open>iteration = m - 1\<close>.
  The claim as stated fails for a negative \<^verbatim>\<open>max_iterations\<close> (one pass, iteration 0),
  and when an agent raises (the initial state comes back, iteration 0).
\<close>

theorem ceiling_override:
  assumes "max_iterations (initial_state cfg query mi) = Some m" and "1 \<le> m"
    and "final (research_trace cfg lib env query mi) = Inr f"
    and "list_all (below_threshold cfg) (judged (research_trace cfg lib env query mi))"
  shows "passes (research_trace cfg lib env query mi) = nat m
       \<and> run_research cfg lib env query mi = f
       \<and> iteration f = Some (m - 1)
       \<and> quality_gate cfg f = ''accept''"
proof -
  from graph_loop_all_low[of cfg lib env 0 "[]" "initial_state cfg query mi" f 0 m] assms
  have "passes (research_trace cfg lib env query mi) = nat m
       \<and> iteration f = Some (m - 1) \<and> quality_gate cfg f = ''accept''"
    by (simp add: research_trace_def initial_counters)
  moreover from assms(3) have "run_research cfg lib env query mi = f"
    by (simp add: run_research_def)
  ultimately show ?thesis by simp
qed

text \<open>
  The two failing runs: a requested \<open>max_iterations\<close> of \<open>-1\<close> in \<open>low_env\<close>, and a run of
  three allowed passes in \<open>gap_env\<close>, where the decomposer raises on the second pass.
\<close>

theorem ceiling_override_counterexample:
  "list_all (below_threshold default_settings)
     (judged (research_trace default_settings sample_library (\<lambda>_. low_env) ''q'' (Some (- 1))))
   \<and> passes (research_trace default_settings sample_library (\<lambda>_. low_env) ''q'' (Some (- 1))) = 1
   \<and> max_iterations (run_research default_settings sample_library (\<lambda>_. low_env) ''q'' (Some (- 1))) = Some (- 1)
   \<and> iteration (run_research default_settings sample_library (\<lambda>_. low_env) ''q'' (Some (- 1))) = Some 0
   \<and> list_all (below_threshold default_settings)
     (judged (research_trace default_settings sample_library (\<lambda>_. gap_env) ''q'' (Some 3)))
   \<and> passes (research_trace default_settings sample_library (\<lambda>_. gap_env) ''q'' (Some 3)) = 2
   \<and> iteration (run_research default_settings sample_library (\<lambda>_. gap_env) ''q'' (Some 3)) = Some 0"
  by code_simp

theorem ceiling_override_witness:
  "max_iterations (initial_state default_settings ''q'' (Some 3)) = Some 3
   \<and> list_all (below_threshold default_settings)
     (judged (research_trace default_settings sample_library (\<lambda>_. low_env) ''q'' (Some 3)))
   \<and> passes (research_trace default_settings sample_library (\<lambda>_. low_env) ''q'' (Some 3)) = nat 3
   \<and> iteration (run_research default_settings sample_library (\<lambda>_. low_env) ''q'' (Some 3)) = Some (3 - 1)"
proof -
  let ?t = "research_trace default_settings sample_library (\<lambda>_. low_env) ''q'' (Some 3)"
  let ?r = "run_research default_settings sample_library (\<lambda>_. low_env) ''q'' (Some 3)"
  have h1: "max_iterations (initial_state default_settings ''q'' (Some 3)) = Some 3" by code_simp
  have h2: "(1::int) \<le> 3" by simp
  have h3: "final ?t = Inr ?r" by code_simp
  have h4: "list_all (below_threshold default_settings) (judged ?t)" by code_simp
  from ceiling_override[OF h1 h2 h3 h4]
  have c: "passes ?t = nat 3" "iteration ?r = Some (3 - 1)" by simp_all
  from h1 h4 c show ?thesis by (intro conjI)
qed

lemma run_nodes_last:
  "run_nodes (nodes @ [node]) s = Inr s' \<Longrightarrow> \<exists>s0 u. node s0 = Inr u \<and> s' = apply_update s0 u"
proof (induction nodes arbitrary: s)
  case Nil
  then show ?case by (auto split: sum.splits)
next
  case (Cons n ns)
  then show ?case by (auto split: sum.splits)
qed

lemma build_report_written:
  "build_report lib env s0 = Inr u \<Longrightarrow> \<exists>d. report u = Some d \<and> d \<noteq> []"
  unfolding build_report_def report_run_def Let_def report_try_def build_fallback_report_def
  by (auto simp add: andthen_def no_update_def split: sum.splits prod.splits)

lemma pipeline_report:
  assumes "run_nodes (pipeline cfg lib env) s = Inr s'"
  shows "\<exists>d. report s' = Some d \<and> d \<noteq> []"
proof -
  have "pipeline cfg lib env =
      [decompose cfg lib env, retrieve lib env, analyze lib env, fact_check_node lib env,
       generate_insights lib env] @ [build_report lib env]"
    by (simp add: pipeline_def)
  with assms run_nodes_last obtain s0 u where "build_report lib env s0 = Inr u" "s' = apply_update s0 u"
    by metis
  with build_report_written[of lib env s0 u] show ?thesis
    by (auto simp add: apply_update_def override_def)
qed

lemma graph_loop_report:
  "final (graph_loop cfg lib env k hist s) = Inr f \<Longrightarrow> \<exists>d. report f = Some d \<and> d \<noteq> []"
proof (induction cfg lib env k hist s rule: graph_loop.induct)
  case (1 cfg lib env k hist state)
  show ?case
  proof (cases "run_nodes (pipeline cfg lib (env k)) state")
    case (Inl failure)
    with "1.prems" show ?thesis by (simp add: graph_loop_stop)
  next
    case (Inr reported)
    show ?thesis
    proof (cases "quality_gate cfg reported = ''accept''")
      case True
      with Inr "1.prems" pipeline_report[OF Inr] show ?thesis by (simp add: graph_loop_accept)
    next
      case False
      with Inr "1.prems" "1.IH"[OF Inr False] show ?thesis
        by (simp add: graph_loop_refine[where env=env and k=k, OF Inr False])
    qed
  qed
qed




text \<open>
  C9 (as amended). With the clients and the graph built, \<^verbatim>\<open>run_research\<close> returns a state
  in every case. When an exception leaves the graph, the state returned is the initial
  state with \<^verbatim>\<open>errors = [str(e)]\<close>: no sources, an empty report, iteration 0, and none of
  the results or error entries collected before the exception. When no exception leaves
  the graph (agents may have degraded), the state returned is the graph's accepted state,
  and it holds a non-empty report.
\<close>

theorem run_research_outcomes:
  "(final (research_trace cfg lib env query mi) = Inl (e, reached) \<longrightarrow>
      run_research cfg lib env query mi = (initial_state cfg query mi)\<lparr>errors := Some [str_exn e]\<rparr>
      \<and> errors (run_research cfg lib env query mi)
          = Some (sget (errors (initial_state cfg query mi)) [] @ [str_exn e])
      \<and> sources (run_research cfg lib env query mi) = Some []
      \<and> report (run_research cfg lib env query mi) = Some []
      \<and> iteration (run_research cfg lib env query mi) = Some 0)
   \<and> (final (research_trace cfg lib env query mi) = Inr result \<longrightarrow>
      run_research cfg lib env query mi = result
      \<and> (\<exists>d. report result = Some d \<and> d \<noteq> [])
      \<and> quality_gate cfg result = ''accept'')"
proof (intro conjI impI)
  assume a: "final (research_trace cfg lib env query mi) = Inr result"
  then show "run_research cfg lib env query mi = result" by (simp add: run_research_def)
  from a graph_loop_report[of cfg lib env 0 "[]" "initial_state cfg query mi" result]
  show "\<exists>d. report result = Some d \<and> d \<noteq> []" by (simp add: research_trace_def)
  obtain m where "max_iterations (initial_state cfg query mi) = Some m" by (simp add: initial_state_def)
  with a graph_loop_iteration[of cfg lib env 0 "[]" "initial_state cfg query mi" result 0 m]
  show "quality_gate cfg result = ''accept''"
    by (simp add: research_trace_def initial_state_def)
qed (simp_all add: run_research_def initial_state_def sget_def)

text \<open>
  The failing run: in \<open>gap_env\<close> the first pass ends with a report, a score of 10 and two
  error entries; the decomposer raises on the second pass; what comes back has none of
  them.
\<close>

theorem run_research_outcomes_counterexample:
  "map_option errors (partial_state (research_trace default_settings sample_library (\<lambda>_. gap_env) ''q'' (Some 2)))
     = Some (Some [''Decomposer: timeout'', ''Insights: timeout''])
   \<and> map_option quality_score
       (partial_state (research_trace default_settings sample_library (\<lambda>_. gap_env) ''q'' (Some 2)))
     = Some (Some (Finite 10))
   \<and> map_option report (partial_state (research_trace default_settings sample_library (\<lambda>_. gap_env) ''q'' (Some 2)))
     \<noteq> Some (Some [])
   \<and> errors (run_research default_settings sample_library (\<lambda>_. gap_env) ''q'' (Some 2)) = Some [''TypeError'']
   \<and> quality_score (run_research default_settings sample_library (\<lambda>_. gap_env) ''q'' (Some 2)) = Some (Finite 0)
   \<and> report (run_research default_settings sample_library (\<lambda>_. gap_env) ''q'' (Some 2)) = Some []"
  by code_simp

theorem run_research_outcomes_witness:
  "final (research_trace default_settings sample_library scenario_env ''q'' (Some 2))
     = Inr (run_research default_settings sample_library scenario_env ''q'' (Some 2))
   \<and> (\<exists>d. report (run_research default_settings sample_library scenario_env ''q'' (Some 2)) = Some d \<and> d \<noteq> [])
   \<and> errors (run_research default_settings sample_library (\<lambda>_. gap_env) ''q'' (Some 2))
       = Some (sget (errors (initial_state default_settings ''q'' (Some 2))) [] @ [str_exn TypeError])"
proof -
  let ?t = "research_trace default_settings sample_library scenario_env ''q'' (Some 2)"
  let ?r = "run_research default_settings sample_library scenario_env ''q'' (Some 2)"
  let ?g = "research_trace default_settings sample_library (\<lambda>_. gap_env) ''q'' (Some 2)"
  have h: "final ?t = Inr ?r" by code_simp
  from run_research_outcomes[of default_settings sample_library scenario_env "''q''" "Some 2" _ _ ?r] h
  have a: "\<exists>d. report ?r = Some d \<and> d \<noteq> []" by blast
  obtain reached where hg: "final ?g = Inl (TypeError, reached)"
  proof -
    have "fst (case final ?g of Inl x \<Rightarrow> x | Inr y \<Rightarrow> (KeyError, y)) = TypeError
        \<and> (case final ?g of Inl x \<Rightarrow> True | Inr y \<Rightarrow> False)" by code_simp
    then show ?thesis using that by (cases "final ?g") (auto split: prod.splits)
  qed
  from run_research_outcomes[of default_settings sample_library "\<lambda>_. gap_env" "''q''" "Some 2" TypeError reached] hg
  have b: "errors (run_research default_settings sample_library (\<lambda>_. gap_env) ''q'' (Some 2))
       = Some (sget (errors (initial_state default_settings ''q'' (Some 2))) [] @ [str_exn TypeError])"
    by blast
  from h a b show ?thesis by (intro conjI)
qed

section \<open>Properties of the retriever\<close>

lemma run_nodes_rel:
  assumes refl: "\<And>s. R s s" and trans: "\<And>a b c. R a b \<Longrightarrow> R b c \<Longrightarrow> R a c"
    and step: "\<And>node s u. node \<in> set nodes \<Longrightarrow> node s = Inr u \<Longrightarrow> R s (apply_update s u)"
    and run: "run_nodes nodes s = Inr s'"
  shows "R s s'"
  using step run
proof (induction nodes arbitrary: s)
  case Nil
  then show ?case by (simp add: refl)
next
  case (Cons node nodes)
  from Cons.prems(2) obtain u where u: "node s = Inr u" and rest: "run_nodes nodes (apply_update s u) = Inr s'"
    by (auto split: sum.splits)
  from Cons.prems(1)[of node s u] u have "R s (apply_update s u)" by simp
  moreover from Cons.IH[OF _ rest] Cons.prems(1) have "R (apply_update s u) s'" by auto
  ultimately show ?case by (rule trans)
qed

lemma add_unseen_inv:
  "add_unseen (seen, acc) results = (seen', acc') \<Longrightarrow>
     \<exists>extra. acc' = acc @ extra \<and> distinct (map url extra)
        \<and> set (map url extra) \<inter> seen = {} \<and> seen' = seen \<union> set (map url extra)"
proof (induction results arbitrary: seen acc)
  case Nil
  then show ?case by simp
next
  case (Cons src rest)
  show ?case
  proof (cases "url src \<in> seen")
    case True
    with Cons.prems have "add_unseen (seen, acc) rest = (seen', acc')" by simp
    from Cons.IH[OF this] show ?thesis .
  next
    case False
    with Cons.prems have "add_unseen (insert (url src) seen, acc @ [src]) rest = (seen', acc')" by simp
    from Cons.IH[OF this] obtain extra where e: "acc' = (acc @ [src]) @ extra" "distinct (map url extra)"
      "set (map url extra) \<inter> insert (url src) seen = {}" "seen' = insert (url src) seen \<union> set (map url extra)"
      by blast
    show ?thesis
    proof (intro exI[of _ "src # extra"] conjI)
      show "acc' = acc @ src # extra" using e(1) by simp
      show "distinct (map url (src # extra))" using e(2,3) by auto
      show "set (map url (src # extra)) \<inter> seen = {}" using e(3) False by auto
      show "seen' = seen \<union> set (map url (src # extra))" using e(4) by auto
    qed
  qed
qed

lemma search_all_inv:
  "search_all netloc tav i queries (seen, acc) = (seen', acc') \<Longrightarrow>
     \<exists>extra. acc' = acc @ extra \<and> distinct (map url extra)
        \<and> set (map url extra) \<inter> seen = {} \<and> seen' = seen \<union> set (map url extra)"
proof (induction queries arbitrary: i seen acc)
  case Nil
  then show ?case by simp
next
  case (Cons query rest)
  show ?case
  proof (cases "search netloc (tav i query) query")
    case (Inl e)
    with Cons.prems have "search_all netloc tav (Suc i) rest (seen, acc) = (seen', acc')" by simp
    from Cons.IH[OF this] show ?thesis .
  next
    case (Inr results)
    obtain seen1 acc1 where one: "add_unseen (seen, acc) results = (seen1, acc1)"
      by (cases "add_unseen (seen, acc) results")
    with Inr Cons.prems have "search_all netloc tav (Suc i) rest (seen1, acc1) = (seen', acc')" by simp
    from Cons.IH[OF this] obtain extra2 where e2: "acc' = acc1 @ extra2" "distinct (map url extra2)"
      "set (map url extra2) \<inter> seen1 = {}" "seen' = seen1 \<union> set (map url extra2)"
      by blast
    from add_unseen_inv[OF one] obtain extra1 where e1: "acc1 = acc @ extra1" "distinct (map url extra1)"
      "set (map url extra1) \<inter> seen = {}" "seen1 = seen \<union> set (map url extra1)"
      by blast
    show ?thesis
    proof (intro exI[of _ "extra1 @ extra2"] conjI)
      show "acc' = acc @ extra1 @ extra2" using e1(1) e2(1) by simp
      show "distinct (map url (extra1 @ extra2))" using e1(2,4) e2(2,3) by auto
      show "set (map url (extra1 @ extra2)) \<inter> seen = {}" using e1(3,4) e2(3) by auto
      show "seen' = seen \<union> set (map url (extra1 @ extra2))" using e1(4) e2(4) by auto
    qed
  qed
qed

lemma categorize_items_urls:
  "categorize_items items srcs = Inr out \<Longrightarrow> map url out = map url srcs"
proof (induction items arbitrary: srcs)
  case Nil
  then show ?case by simp
next
  case (Cons item items)
  have upd: "map url (srcs[i := (srcs ! i)\<lparr>source_type := t\<rparr>]) = map url srcs" for i t
  proof (cases "i < length srcs")
    case True
    then show ?thesis by (simp add: map_update list_update_same_conv)
  next
    case False
    then have "srcs[i := (srcs ! i)\<lparr>source_type := t\<rparr>] = srcs"
      by (intro list_update_beyond) simp
    then show ?thesis by (simp only:)
  qed
  from Cons.prems Cons.IH show ?case
    by (auto simp add: andthen_def upd split: sum.splits option.splits)
qed

lemma categorize_sources_urls: "map url (categorize_sources answer srcs) = map url srcs"
  by (auto simp add: categorize_sources_def andthen_def categorize_items_urls comp_def
      split: sum.splits)

lemma new_sources_urls:
  "distinct (map url (new_sources netloc tav answer existing queries))
   \<and> set (map url (new_sources netloc tav answer existing queries)) \<inter> set (map url existing) = {}"
proof -
  obtain seen' acc' where r: "search_all netloc tav 0 queries (set (map url existing), []) = (seen', acc')"
    by (cases "search_all netloc tav 0 queries (set (map url existing), [])")
  from search_all_inv[OF r] have "distinct (map url acc') \<and> set (map url acc') \<inter> set (map url existing) = {}"
    by auto
  moreover from r have "map url (new_sources netloc tav answer existing queries) = map url acc'"
    by (simp add: new_sources_def Let_def categorize_sources_urls)
  ultimately show ?thesis by (simp only:)
qed

lemma retriever_run_Inr:
  "retriever_run netloc tav answer s = Inr u \<Longrightarrow>
     \<exists>queries. py_iter (sget (sub_queries s) (JArr [])) = Inr queries
       \<and> u = no_update\<lparr>sources := Some (sget (sources s) []
                @ new_sources netloc tav answer (sget (sources s) []) queries)\<rparr>"
  by (auto simp add: retriever_run_def andthen_def Let_def split: sum.splits)


lemma other_nodes_sources:
  "decompose cfg lib env s = Inr u \<Longrightarrow> sources u = None"
  "analyze lib env s = Inr u \<Longrightarrow> sources u = None"
  "fact_check_node lib env s = Inr u \<Longrightarrow> sources u = None"
  "generate_insights lib env s = Inr u \<Longrightarrow> sources u = None"
  "build_report lib env s = Inr u \<Longrightarrow> sources u = None"
  unfolding decompose_def decomposer_run_def analyze_def analysis_run_def fact_check_node_def
    fact_checker_run_def generate_insights_def insight_run_def build_report_def report_run_def Let_def
  by (auto simp add: andthen_def no_update_def split: sum.splits if_splits prod.splits)

lemma node_sources:
  assumes "node \<in> set (pipeline cfg lib env)" "node s = Inr u"
  shows "\<exists>new. collected (apply_update s u) = collected s @ new
           \<and> distinct (map url new) \<and> set (map url new) \<inter> set (map url (collected s)) = {}"
proof (cases "node = retrieve lib env")
  case True
  with assms(2) retriever_run_Inr obtain queries where
    "u = no_update\<lparr>sources := Some (sget (sources s) []
           @ new_sources (url_netloc lib) (tavily env) (chat_json (json_loads lib) (retriever_answer env))
               (sget (sources s) []) queries)\<rparr>"
    unfolding retrieve_def by blast
  then have "collected (apply_update s u) = collected s
       @ new_sources (url_netloc lib) (tavily env) (chat_json (json_loads lib) (retriever_answer env))
               (collected s) queries"
    by (simp add: collected_def apply_update_def override_def no_update_def sget_def)
  with new_sources_urls show ?thesis by blast
next
  case False
  with assms have "sources u = None"
    by (auto simp add: pipeline_def other_nodes_sources)
  then have "collected (apply_update s u) = collected s @ []"
    by (simp add: collected_def apply_update_def override_def)
  then show ?thesis by (intro exI[of _ "[]"]) simp
qed

lemma pipeline_sources:
  assumes "run_nodes (pipeline cfg lib env) s = Inr s'"
  shows "prefix (collected s) (collected s')"
proof (rule run_nodes_rel[where R="\<lambda>a b. prefix (collected a) (collected b)", OF _ _ _ assms])
  fix node s u
  assume "node \<in> set (pipeline cfg lib env)" "node s = Inr u"
  from node_sources[OF this] show "prefix (collected s) (collected (apply_update s u))"
    by auto
qed auto

lemma pipeline_distinct:
  assumes "run_nodes (pipeline cfg lib env) s = Inr s'"
  shows "distinct (map url (collected s)) \<longrightarrow> distinct (map url (collected s'))"
proof (rule run_nodes_rel[where R="\<lambda>a b. distinct (map url (collected a)) \<longrightarrow> distinct (map url (collected b))",
        OF _ _ _ assms])
  fix node s u
  assume "node \<in> set (pipeline cfg lib env)" "node s = Inr u"
  from node_sources[OF this] obtain new where n: "collected (apply_update s u) = collected s @ new"
    "distinct (map url new)" "set (map url new) \<inter> set (map url (collected s)) = {}"
    by blast
  from n(3) have "set (map url (collected s)) \<inter> set (map url new) = {}" by blast
  with n(1,2) show "distinct (map url (collected s)) \<longrightarrow> distinct (map url (collected (apply_update s u)))"
    by (simp only: map_append distinct_append) simp
qed auto

lemma collected_incremented: "collected (apply_update r (increment_iteration r)) = collected r"
  by (simp add: collected_def apply_update_def increment_iteration_def override_def no_update_def)

lemma graph_loop_invariant:
  "(\<And>e a b. I a \<Longrightarrow> run_nodes (pipeline cfg lib e) a = Inr b \<Longrightarrow> I b) \<Longrightarrow>
   (\<And>a. I a \<Longrightarrow> I (apply_update a (increment_iteration a))) \<Longrightarrow>
   I s \<Longrightarrow> list_all I hist \<Longrightarrow>
     list_all I (judged (graph_loop cfg lib env k hist s))
     \<and> (\<forall>f. final (graph_loop cfg lib env k hist s) = Inr f \<longrightarrow> I f)"
proof (induction cfg lib env k hist s rule: graph_loop.induct)
  case (1 cfg lib env k hist state)
  show ?case
  proof (cases "run_nodes (pipeline cfg lib (env k)) state")
    case (Inl failure)
    with "1.prems"(4) show ?thesis by (simp add: graph_loop_stop)
  next
    case (Inr reported)
    from "1.prems"(3) Inr have ir: "I reported" by (rule "1.prems"(1))
    show ?thesis
    proof (cases "quality_gate cfg reported = ''accept''")
      case True
      with Inr "1.prems"(4) ir show ?thesis by (simp add: graph_loop_accept)
    next
      case False
      have "list_all I (hist @ [reported])" using "1.prems"(4) ir by simp
      from "1.IH"[OF Inr False "1.prems"(1,2) "1.prems"(2)[OF ir] this]
      show ?thesis
        by (simp add: graph_loop_refine[where env=env and k=k, OF Inr False])
    qed
  qed
qed

lemma graph_loop_growing:
  "sorted_wrt (\<lambda>a b. prefix (collected a) (collected b)) hist \<Longrightarrow>
   \<forall>h\<in>set hist. prefix (collected h) (collected s) \<Longrightarrow>
   sorted_wrt (\<lambda>a b. prefix (collected a) (collected b)) (judged (graph_loop cfg lib env k hist s))"
proof (induction cfg lib env k hist s rule: graph_loop.induct)
  case (1 cfg lib env k hist state)
  show ?case
  proof (cases "run_nodes (pipeline cfg lib (env k)) state")
    case (Inl failure)
    with "1.prems" show ?thesis by (simp add: graph_loop_stop)
  next
    case (Inr reported)
    from pipeline_sources[OF Inr] have grow: "prefix (collected state) (collected reported)" .
    with "1.prems"(2) have all: "\<forall>h\<in>set hist. prefix (collected h) (collected reported)"
      by (meson prefix_order.trans)
    with "1.prems"(1) have sorted: "sorted_wrt (\<lambda>a b. prefix (collected a) (collected b)) (hist @ [reported])"
      by (simp add: sorted_wrt_append)
    show ?thesis
    proof (cases "quality_gate cfg reported = ''accept''")
      case True
      with Inr sorted show ?thesis by (simp add: graph_loop_accept)
    next
      case False
      from all have "\<forall>h\<in>set (hist @ [reported]).
          prefix (collected h) (collected (apply_update reported (increment_iteration reported)))"
        by (simp add: collected_incremented)
      from "1.IH"[OF Inr False sorted this] show ?thesis
        by (simp add: graph_loop_refine[where env=env and k=k, OF Inr False])
    qed
  qed
qed


text \<open>
  C5. Whenever the retriever returns an update (it does for every state whose
  \<^verbatim>\<open>sub_queries\<close> can be iterated, and then the update is the one displayed), the update
  sets \<^verbatim>\<open>sources\<close> to the existing list with the new items appended, so the list
  before is a prefix of the list after and is not longer. No other agent writes
  \<^verbatim>\<open>sources\<close>: the same holds across a whole pass, and along the states the gate judges
  the list after pass \<open>k\<close> is a prefix of (and not longer than) the list after any later
  pass.
\<close>

theorem sources_accumulate:
  "(retriever_run netloc tav answer s = Inr u \<longrightarrow>
      (\<exists>new. sources u = Some (collected s @ new))
      \<and> prefix (collected s) (collected (apply_update s u))
      \<and> length (collected s) \<le> length (collected (apply_update s u)))
   \<and> (py_iter (sget (sub_queries s) (JArr [])) = Inr queries \<longrightarrow>
        retriever_run netloc tav answer s
          = Inr (no_update\<lparr>sources := Some (collected s @ new_sources netloc tav answer (collected s) queries)\<rparr>))
   \<and> (run_nodes (pipeline cfg lib e) s = Inr s' \<longrightarrow>
        prefix (collected s) (collected s') \<and> length (collected s) \<le> length (collected s'))
   \<and> sorted_wrt (\<lambda>a b. prefix (collected a) (collected b) \<and> length (collected a) \<le> length (collected b))
        (judged (research_trace cfg lib env query mi))"
proof (intro conjI impI)
  assume r: "retriever_run netloc tav answer s = Inr u"
  from retriever_run_Inr[OF r] obtain queries where
    u: "u = no_update\<lparr>sources := Some (sget (sources s) []
           @ new_sources netloc tav answer (sget (sources s) []) queries)\<rparr>"
    by blast
  then show "\<exists>new. sources u = Some (collected s @ new)"
    by (simp add: collected_def no_update_def)
  from u have c: "collected (apply_update s u)
      = collected s @ new_sources netloc tav answer (sget (sources s) []) queries"
    by (simp add: collected_def apply_update_def override_def no_update_def sget_def)
  then show "prefix (collected s) (collected (apply_update s u))" by simp
  from c show "length (collected s) \<le> length (collected (apply_update s u))" by simp
next
  assume "py_iter (sget (sub_queries s) (JArr [])) = Inr queries"
  then show "retriever_run netloc tav answer s
          = Inr (no_update\<lparr>sources := Some (collected s @ new_sources netloc tav answer (collected s) queries)\<rparr>)"
    by (simp add: retriever_run_def andthen_def Let_def collected_def)
next
  assume p: "run_nodes (pipeline cfg lib e) s = Inr s'"
  from pipeline_sources[OF p] show "prefix (collected s) (collected s')" .
  then show "length (collected s) \<le> length (collected s')" by (rule prefix_length_le)
next
  have "sorted_wrt (\<lambda>a b. prefix (collected a) (collected b)) (judged (research_trace cfg lib env query mi))"
    unfolding research_trace_def by (rule graph_loop_growing) simp_all
  then show "sorted_wrt (\<lambda>a b. prefix (collected a) (collected b) \<and> length (collected a) \<le> length (collected b))
        (judged (research_trace cfg lib env query mi))"
    by (rule sorted_wrt_mono_rel[rotated]) (simp add: prefix_length_le)
qed

theorem sources_accumulate_witness:
  "py_iter (sget (sub_queries earlier_state) (JArr [])) = Inr [JStr ''first'', JStr ''second'']
   \<and> map url (collected earlier_state) = [''https://www.who.int/ai'']
   \<and> (\<exists>u. retriever_run sample_netloc sample_tavily (Inl (CapabilityError ''timeout'')) earlier_state = Inr u
         \<and> map_option (map url) (sources u) = Some [''https://www.who.int/ai'', ''https://arxiv.org/abs/1''])
   \<and> map (\<lambda>g. length (collected g))
        (judged (research_trace default_settings sample_library (\<lambda>_. rich_env) ''q'' (Some 2))) = [2, 2]"
proof -
  have h: "py_iter (sget (sub_queries earlier_state) (JArr [])) = Inr [JStr ''first'', JStr ''second'']"
    by code_simp
  have c: "map url (collected earlier_state) = [''https://www.who.int/ai'']" by code_simp
  have n: "map url (collected earlier_state
             @ new_sources sample_netloc sample_tavily (Inl (CapabilityError ''timeout''))
                 (collected earlier_state) [JStr ''first'', JStr ''second''])
           = [''https://www.who.int/ai'', ''https://arxiv.org/abs/1'']"
    by code_simp
  from sources_accumulate[of sample_netloc sample_tavily "Inl (CapabilityError ''timeout'')" earlier_state
      _ "[JStr ''first'', JStr ''second'']"] h
  have "retriever_run sample_netloc sample_tavily (Inl (CapabilityError ''timeout'')) earlier_state
          = Inr (no_update\<lparr>sources := Some (collected earlier_state
               @ new_sources sample_netloc sample_tavily (Inl (CapabilityError ''timeout''))
                   (collected earlier_state) [JStr ''first'', JStr ''second''])\<rparr>)"
    by blast
  with n have r: "\<exists>u. retriever_run sample_netloc sample_tavily (Inl (CapabilityError ''timeout'')) earlier_state = Inr u
         \<and> map_option (map url) (sources u) = Some [''https://www.who.int/ai'', ''https://arxiv.org/abs/1'']"
    by (simp add: no_update_def)
  have t: "map (\<lambda>g. length (collected g))
        (judged (research_trace default_settings sample_library (\<lambda>_. rich_env) ''q'' (Some 2))) = [2, 2]"
    by code_simp
  from h c r t show ?thesis by (intro conjI)
qed

text \<open>
  C6. The sources the retriever appends have pairwise distinct urls, none of which occurs
  among the urls of the sources already in the state; so a list with distinct urls stays
  one. Starting from the empty list of the initial state, the urls are pairwise distinct
  in every state the gate judges and in the state \<^verbatim>\<open>run_research\<close> returns.
\<close>

theorem urls_deduplicated:
  "distinct (map url (new_sources netloc tav answer existing queries))
   \<and> set (map url (new_sources netloc tav answer existing queries)) \<inter> set (map url existing) = {}
   \<and> (retriever_run netloc tav answer s = Inr u \<longrightarrow> distinct (map url (collected s)) \<longrightarrow>
        distinct (map url (collected (apply_update s u))))
   \<and> list_all (\<lambda>g. distinct (map url (collected g))) (judged (research_trace cfg lib env query mi))
   \<and> distinct (map url (collected (run_research cfg lib env query mi)))"
proof -
  let ?I = "\<lambda>g. distinct (map url (collected g))"
  let ?init = "initial_state cfg query mi"
  have init: "?I ?init" by (simp add: collected_def initial_state_def sget_def)
  have inv: "list_all ?I (judged (graph_loop cfg lib env 0 [] ?init))
     \<and> (\<forall>f. final (graph_loop cfg lib env 0 [] ?init) = Inr f \<longrightarrow> ?I f)"
  proof (rule graph_loop_invariant[where I="?I"])
    fix e a b
    assume "?I a" "run_nodes (pipeline cfg lib e) a = Inr b"
    with pipeline_distinct show "?I b" by blast
  next
    fix a assume "?I a"
    then show "?I (apply_update a (increment_iteration a))" by (simp add: collected_incremented)
  qed (simp_all add: init)
  have out: "?I (run_research cfg lib env query mi)"
  proof (cases "final (research_trace cfg lib env query mi)")
    case (Inl failure)
    then have "collected (run_research cfg lib env query mi) = []"
      by (simp add: run_research_def collected_def initial_state_def sget_def split: prod.splits)
    then show ?thesis by simp
  next
    case (Inr result)
    with inv show ?thesis by (simp add: run_research_def research_trace_def)
  qed
  have step: "retriever_run netloc tav answer s = Inr u \<longrightarrow> ?I s \<longrightarrow> ?I (apply_update s u)"
  proof (intro impI)
    assume r: "retriever_run netloc tav answer s = Inr u" and d: "?I s"
    from retriever_run_Inr[OF r] obtain qs where
      "u = no_update\<lparr>sources := Some (sget (sources s) [] @ new_sources netloc tav answer (sget (sources s) []) qs)\<rparr>"
      by blast
    then have c: "collected (apply_update s u) = collected s @ new_sources netloc tav answer (collected s) qs"
      by (simp add: collected_def apply_update_def override_def no_update_def sget_def)
    from new_sources_urls[of netloc tav answer "collected s" qs]
    have "distinct (map url (new_sources netloc tav answer (collected s) qs))"
      "set (map url (collected s)) \<inter> set (map url (new_sources netloc tav answer (collected s) qs)) = {}"
      by blast+
    with d show "?I (apply_update s u)" unfolding c by (simp only: map_append distinct_append)
  qed
  from new_sources_urls[of netloc tav answer existing queries] step inv out
  show ?thesis by (simp add: research_trace_def)
qed

theorem urls_deduplicated_witness:
  "map url (new_sources sample_netloc sample_tavily (Inl (CapabilityError ''timeout''))
              [who_source] [JStr ''first'', JStr ''second'']) = [''https://arxiv.org/abs/1'']
   \<and> distinct (map url (new_sources sample_netloc sample_tavily (Inl (CapabilityError ''timeout''))
              [who_source] [JStr ''first'', JStr ''second'']))
   \<and> map url (collected (run_research default_settings sample_library (\<lambda>_. rich_env) ''q'' (Some 2)))
       = [''https://www.who.int/ai'', ''https://arxiv.org/abs/1'']
   \<and> distinct (map url (collected (run_research default_settings sample_library (\<lambda>_. rich_env) ''q'' (Some 2))))"
proof -
  have a: "map url (new_sources sample_netloc sample_tavily (Inl (CapabilityError ''timeout''))
              [who_source] [JStr ''first'', JStr ''second'']) = [''https://arxiv.org/abs/1'']"
    by code_simp
  have b: "map url (collected (run_research default_settings sample_library (\<lambda>_. rich_env) ''q'' (Some 2)))
       = [''https://www.who.int/ai'', ''https://arxiv.org/abs/1'']"
    by code_simp
  from urls_deduplicated[of sample_netloc sample_tavily "Inl (CapabilityError ''timeout'')" "[who_source]"
      "[JStr ''first'', JStr ''second'']" _ _ default_settings sample_library "\<lambda>_. rich_env" "''q''" "Some 2"]
  have c: "distinct (map url (new_sources sample_netloc sample_tavily (Inl (CapabilityError ''timeout''))
              [who_source] [JStr ''first'', JStr ''second'']))"
    and d: "distinct (map url (collected (run_research default_settings sample_library (\<lambda>_. rich_env) ''q'' (Some 2))))"
    by blast+
  from a c b d show ?thesis by (intro conjI)
qed

section \<open>Properties of the degraded paths\<close>

lemma chat_json_fails:
  "(chat_json loads reply = Inl e)
     = (reply = Inl e \<or> (\<exists>raw. reply = Inr raw \<and> parse_json loads raw = Inl e))"
  by (cases reply) (simp_all add: chat_json_def)

lemma decomposer_degraded:
  "previous_gaps s = Inr gaps \<Longrightarrow>
     decomposer_run cfg s (Inl e)
       = Inr (no_update\<lparr>sub_queries := Some (JArr [JStr (sget (original_query s) [])]),
                errors := Some (sget (errors s) [] @ [''Decomposer: '' @ str_exn e])\<rparr>)"
  by (simp add: decomposer_run_def decomposer_try_def andthen_def Let_def)

lemma analysis_degraded:
  "sget (sources s) [] \<noteq> [] \<Longrightarrow>
     analysis_run s (Inl e)
       = Inr (no_update\<lparr>analysis := Some (analysis_fallback e),
                errors := Some (sget (errors s) [] @ [''Analysis: '' @ str_exn e])\<rparr>)"
  by (simp add: analysis_run_def analysis_try_def andthen_def)

lemma fact_checker_degraded:
  "truthy (dget (sget (analysis s) []) ''findings'' (JArr [])) \<Longrightarrow>
   iter_dicts (dget (sget (analysis s) []) ''findings'' (JArr [])) = Inr fs \<Longrightarrow>
     fact_checker_run s (Inl e)
       = Inr (no_update\<lparr>fact_check := Some (fact_check_fallback fs e),
                errors := Some (sget (errors s) [] @ [''FactChecker: '' @ str_exn e])\<rparr>)"
  by (simp add: fact_checker_run_def fact_check_try_def andthen_def Let_def)

lemma fact_check_fallback_fields:
  "dget (fact_check_fallback fs e) ''overall_reliability_score'' JNull = JInt 40"
  "dget (fact_check_fallback fs e) ''verified_claims'' JNull = JArr (map unverified_claim fs)"
  "py_get (unverified_claim f) ''status'' JNull = Inr (JStr ''unverified'')"
  "py_get (unverified_claim f) ''confidence_score'' JNull = Inr (JInt 50)"
  "py_get (unverified_claim f) ''claim'' JNull = Inr (dget f ''claim'' (JStr []))"
  by (simp_all add: fact_check_fallback_def unverified_claim_def dget_def py_get_def andthen_def)

lemma insight_degraded:
  "insight_format (sget (analysis s) []) (sget (fact_check s) []) = Inr ok \<Longrightarrow>
     insight_run s (Inl e)
       = Inr (no_update\<lparr>insights := Some (insight_fallback e),
                errors := Some (sget (errors s) [] @ [''Insights: '' @ str_exn e])\<rparr>)"
  by (simp add: insight_run_def insight_try_def andthen_def)

lemma report_degraded:
  "report_format (sget (analysis s) []) (sget (fact_check s) []) (sget (insights s) []) = Inr ok \<Longrightarrow>
   build_fallback_report str clock (sget (original_query s) []) (sget (sources s) [])
       (sget (analysis s) []) (sget (fact_check s) []) (sget (insights s) []) (str_exn e) = Inr fb \<Longrightarrow>
     report_run fos str clock s (Inl e)
       = Inr (no_update\<lparr>report := Some fb, quality_score := Some (Finite 30),
                errors := Some (sget (errors s) [] @ [''Report: '' @ str_exn e])\<rparr>)"
  by (simp add: report_run_def report_try_def andthen_def Let_def)

lemma retriever_silent:
  "retriever_run netloc tav answer s = Inr u \<Longrightarrow> errors u = None"
  by (auto simp add: retriever_run_def andthen_def Let_def no_update_def split: sum.splits)

text \<open>
  C7 (as amended). A chat call fails when it raises or when its answer cannot be parsed.
  When the chat call of the decomposer, the analysis agent, the fact checker or the
  insight agent is made and fails, the agent returns (it does not raise) an update with
  its fallback value and the existing \<^verbatim>\<open>errors\<close> list with exactly one entry appended: the
  decomposer's fallback is the list holding only the original query; the fact checker's
  marks every finding's claim \<^verbatim>\<open>unverified\<close> with confidence 50 and gives reliability 40.
  The report agent does the same when its fallback report can be built. The retriever
  absorbs the failures of its search and categorisation calls and never writes \<^verbatim>\<open>errors\<close>.
  The call is made when the code before the \<^verbatim>\<open>try\<close> does not raise: the hypotheses on
  \<open>previous_gaps\<close>, the sources, the findings and the two format functions say so.
\<close>

theorem degraded_updates:
  "((chat_json loads reply = Inl e)
      = (reply = Inl e \<or> (\<exists>raw. reply = Inr raw \<and> parse_json loads raw = Inl e)))
   \<and> (chat_json loads reply = Inl e \<longrightarrow>
       (previous_gaps s = Inr gaps \<longrightarrow>
          decomposer_run cfg s (chat_json loads reply)
            = Inr (no_update\<lparr>sub_queries := Some (JArr [JStr (sget (original_query s) [])]),
                     errors := Some (sget (errors s) [] @ [''Decomposer: '' @ str_exn e])\<rparr>))
     \<and> (sget (sources s) [] \<noteq> [] \<longrightarrow>
          analysis_run s (chat_json loads reply)
            = Inr (no_update\<lparr>analysis := Some (analysis_fallback e),
                     errors := Some (sget (errors s) [] @ [''Analysis: '' @ str_exn e])\<rparr>))
     \<and> (truthy (dget (sget (analysis s) []) ''findings'' (JArr [])) \<longrightarrow>
        iter_dicts (dget (sget (analysis s) []) ''findings'' (JArr [])) = Inr fs \<longrightarrow>
          fact_checker_run s (chat_json loads reply)
            = Inr (no_update\<lparr>fact_check := Some (fact_check_fallback fs e),
                     errors := Some (sget (errors s) [] @ [''FactChecker: '' @ str_exn e])\<rparr>))
     \<and> (insight_format (sget (analysis s) []) (sget (fact_check s) []) = Inr ok \<longrightarrow>
          insight_run s (chat_json loads reply)
            = Inr (no_update\<lparr>insights := Some (insight_fallback e),
                     errors := Some (sget (errors s) [] @ [''Insights: '' @ str_exn e])\<rparr>))
     \<and> (report_format (sget (analysis s) []) (sget (fact_check s) []) (sget (insights s) []) = Inr ok \<longrightarrow>
        build_fallback_report str clock (sget (original_query s) []) (sget (sources s) [])
          (sget (analysis s) []) (sget (fact_check s) []) (sget (insights s) []) (str_exn e) = Inr fb \<longrightarrow>
          report_run fos str clock s (chat_json loads reply)
            = Inr (no_update\<lparr>report := Some fb, quality_score := Some (Finite 30),
                     errors := Some (sget (errors s) [] @ [''Report: '' @ str_exn e])\<rparr>)))
   \<and> dget (fact_check_fallback fs e) ''overall_reliability_score'' JNull = JInt 40
   \<and> dget (fact_check_fallback fs e) ''verified_claims'' JNull = JArr (map unverified_claim fs)
   \<and> py_get (unverified_claim f) ''status'' JNull = Inr (JStr ''unverified'')
   \<and> py_get (unverified_claim f) ''confidence_score'' JNull = Inr (JInt 50)
   \<and> py_get (unverified_claim f) ''claim'' JNull = Inr (dget f ''claim'' (JStr []))
   \<and> (retriever_run netloc tav answer s = Inr u \<longrightarrow> errors u = None)"
proof -
  have "chat_json loads reply = Inl e \<longrightarrow>
       (previous_gaps s = Inr gaps \<longrightarrow>
          decomposer_run cfg s (chat_json loads reply)
            = Inr (no_update\<lparr>sub_queries := Some (JArr [JStr (sget (original_query s) [])]),
                     errors := Some (sget (errors s) [] @ [''Decomposer: '' @ str_exn e])\<rparr>))
     \<and> (sget (sources s) [] \<noteq> [] \<longrightarrow>
          analysis_run s (chat_json loads reply)
            = Inr (no_update\<lparr>analysis := Some (analysis_fallback e),
                     errors := Some (sget (errors s) [] @ [''Analysis: '' @ str_exn e])\<rparr>))
     \<and> (truthy (dget (sget (analysis s) []) ''findings'' (JArr [])) \<longrightarrow>
        iter_dicts (dget (sget (analysis s) []) ''findings'' (JArr [])) = Inr fs \<longrightarrow>
          fact_checker_run s (chat_json loads reply)
            = Inr (no_update\<lparr>fact_check := Some (fact_check_fallback fs e),
                     errors := Some (sget (errors s) [] @ [''FactChecker: '' @ str_exn e])\<rparr>))
     \<and> (insight_format (sget (analysis s) []) (sget (fact_check s) []) = Inr ok \<longrightarrow>
          insight_run s (chat_json loads reply)
            = Inr (no_update\<lparr>insights := Some (insight_fallback e),
                     errors := Some (sget (errors s) [] @ [''Insights: '' @ str_exn e])\<rparr>))
     \<and> (report_format (sget (analysis s) []) (sget (fact_check s) []) (sget (insights s) []) = Inr ok \<longrightarrow>
        build_fallback_report str clock (sget (original_query s) []) (sget (sources s) [])
          (sget (analysis s) []) (sget (fact_check s) []) (sget (insights s) []) (str_exn e) = Inr fb \<longrightarrow>
          report_run fos str clock s (chat_json loads reply)
            = Inr (no_update\<lparr>report := Some fb, quality_score := Some (Finite 30),
                     errors := Some (sget (errors s) [] @ [''Report: '' @ str_exn e])\<rparr>))"
  proof
    assume c: "chat_json loads reply = Inl e"
    show "(previous_gaps s = Inr gaps \<longrightarrow>
          decomposer_run cfg s (chat_json loads reply)
            = Inr (no_update\<lparr>sub_queries := Some (JArr [JStr (sget (original_query s) [])]),
                     errors := Some (sget (errors s) [] @ [''Decomposer: '' @ str_exn e])\<rparr>))
     \<and> (sget (sources s) [] \<noteq> [] \<longrightarrow>
          analysis_run s (chat_json loads reply)
            = Inr (no_update\<lparr>analysis := Some (analysis_fallback e),
                     errors := Some (sget (errors s) [] @ [''Analysis: '' @ str_exn e])\<rparr>))
     \<and> (truthy (dget (sget (analysis s) []) ''findings'' (JArr [])) \<longrightarrow>
        iter_dicts (dget (sget (analysis s) []) ''findings'' (JArr [])) = Inr fs \<longrightarrow>
          fact_checker_run s (chat_json loads reply)
            = Inr (no_update\<lparr>fact_check := Some (fact_check_fallback fs e),
                     errors := Some (sget (errors s) [] @ [''FactChecker: '' @ str_exn e])\<rparr>))
     \<and> (insight_format (sget (analysis s) []) (sget (fact_check s) []) = Inr ok \<longrightarrow>
          insight_run s (chat_json loads reply)
            = Inr (no_update\<lparr>insights := Some (insight_fallback e),
                     errors := Some (sget (errors s) [] @ [''Insights: '' @ str_exn e])\<rparr>))
     \<and> (report_format (sget (analysis s) []) (sget (fact_check s) []) (sget (insights s) []) = Inr ok \<longrightarrow>
        build_fallback_report str clock (sget (original_query s) []) (sget (sources s) [])
          (sget (analysis s) []) (sget (fact_check s) []) (sget (insights s) []) (str_exn e) = Inr fb \<longrightarrow>
          report_run fos str clock s (chat_json loads reply)
            = Inr (no_update\<lparr>report := Some fb, quality_score := Some (Finite 30),
                     errors := Some (sget (errors s) [] @ [''Report: '' @ str_exn e])\<rparr>))"
      unfolding c
      by (intro conjI impI) (simp_all add: decomposer_degraded analysis_degraded fact_checker_degraded insight_degraded report_degraded)
  qed
  with chat_json_fails[of loads reply e] fact_check_fallback_fields(1,2)[of fs e] fact_check_fallback_fields(3,4,5)[of f] retriever_silent[of netloc tav answer s u]
  show ?thesis by (intro conjI impI) blast+
qed

text \<open>
  Where the claim as stated fails: in \<open>failing_env\<close> the retriever's search raises and its
  update holds no \<^verbatim>\<open>errors\<close> entry; and in \<open>odd_findings_state\<close> the report agent, its
  chat call having failed, raises while it builds the fallback report.
\<close>

theorem degraded_updates_counterexample:
  "retriever_run sample_netloc (tavily failing_env) (chat_json sample_loads (retriever_answer failing_env))
       ((initial_state default_settings ''q'' None)\<lparr>sub_queries := Some (JArr [JStr ''q''])\<rparr>)
     = Inr (no_update\<lparr>sources := Some []\<rparr>)
   \<and> errors (no_update\<lparr>sources := Some []\<rparr>) = None
   \<and> report_run (\<lambda>_. None) (\<lambda>_. []) ''2025-01-01T00:00:00'' odd_findings_state
        (chat_json sample_loads (Inl (CapabilityError ''timeout''))) = Inl TypeError"
  by code_simp

theorem degraded_updates_witness:
  "chat_json sample_loads (Inr ''I cannot answer that'')
     = Inl (ValueError (''Could not parse JSON from LLM response. First 500 chars: I cannot answer that''))
   \<and> previous_gaps claimed_state = Inr []
   \<and> decomposer_run default_settings claimed_state (chat_json sample_loads (Inr ''I cannot answer that''))
     = Inr (no_update\<lparr>sub_queries := Some (JArr [JStr ''q'']),
              errors := Some [''Decomposer: Could not parse JSON from LLM response. First 500 chars: I cannot answer that'']\<rparr>)
   \<and> fact_checker_run claimed_state (chat_json sample_loads (Inr ''I cannot answer that''))
     = Inr (no_update\<lparr>fact_check := Some (fact_check_fallback [ [(''claim'', JStr ''c'')] ]
                 (ValueError (''Could not parse JSON from LLM response. First 500 chars: I cannot answer that''))),
              errors := Some [''FactChecker: Could not parse JSON from LLM response. First 500 chars: I cannot answer that'']\<rparr>)"
proof -
  let ?e = "ValueError (''Could not parse JSON from LLM response. First 500 chars: I cannot answer that'')"
  let ?reply = "Inr ''I cannot answer that'' :: exn + string"
  have c: "chat_json sample_loads ?reply = Inl ?e" by code_simp
  have g: "previous_gaps claimed_state = Inr []" by code_simp
  have t: "truthy (dget (sget (analysis claimed_state) []) ''findings'' (JArr []))" by code_simp
  have i: "iter_dicts (dget (sget (analysis claimed_state) []) ''findings'' (JArr [])) = Inr [ [(''claim'', JStr ''c'')] ]"
    by code_simp
  have q: "sget (original_query claimed_state) [] = ''q''" by code_simp
  have er: "sget (errors claimed_state) [] = []" by code_simp
  note inst = degraded_updates[of sample_loads "?reply" "?e" claimed_state "[]" default_settings
      "[ [(''claim'', JStr ''c'')] ]"]
  from inst c g
  have d: "decomposer_run default_settings claimed_state (chat_json sample_loads ?reply)
            = Inr (no_update\<lparr>sub_queries := Some (JArr [JStr (sget (original_query claimed_state) [])]),
                     errors := Some (sget (errors claimed_state) [] @ [''Decomposer: '' @ str_exn ?e])\<rparr>)"
    by blast
  from inst c t i
  have f: "fact_checker_run claimed_state (chat_json sample_loads ?reply)
            = Inr (no_update\<lparr>fact_check := Some (fact_check_fallback [ [(''claim'', JStr ''c'')] ] ?e),
                     errors := Some (sget (errors claimed_state) [] @ [''FactChecker: '' @ str_exn ?e])\<rparr>)"
    by blast
  from c g d f show ?thesis by (simp add: q er)
qed

section \<open>Properties of the JSON extraction\<close>












section \<open>Properties of the decomposer\<close>









end
